theory Spec2Isabelle
  imports Complex_Main
begin

section \<open>Python values, exceptions and dictionaries\<close>

text \<open>
  Cells of a table and values of a campaign record are Python objects. The model keeps the
  kinds of object the pipeline handles: \<open>None\<close>, the float NaN that pandas uses for a
  missing cell, booleans, unbounded integers, floats and text. A float that is not NaN is
  represented by the rational number it stands for, so float arithmetic is exact in the
  model (rounding is not represented). Text is a list of bytes (UTF-8).
\<close>

datatype pyval = PNone | PNaN | PBool bool | PInt int | PFloat rat | PStr string

text \<open>
  The exceptions that the modelled code can raise. \<open>StoreFault\<close> stands for any fault of
  the spreadsheet service, \<open>QueryFault\<close> for any fault of the ads query service. All of them
  are subclasses of Python's \<open>Exception\<close>.
\<close>

datatype pyerr =
    KeyError | ValueError | TypeError | ZeroDivisionError | NameError | SyntaxError
  | OverflowError | InvalidIndexError | StoreFault | QueryFault

text \<open>Sequencing of computations that may raise: the first exception wins.\<close>

definition and_then :: "pyerr + 'a \<Rightarrow> ('a \<Rightarrow> pyerr + 'b) \<Rightarrow> pyerr + 'b" where
  "and_then x f = (case x of Inl e \<Rightarrow> Inl e | Inr a \<Rightarrow> f a)"

text \<open>\<open>pd.isna\<close>, \<open>Series.isna\<close> and \<open>Series.notna\<close> on one cell.\<close>

definition isna :: "pyval \<Rightarrow> bool" where
  "isna v = (v = PNone \<or> v = PNaN)"

text \<open>The numeric value of a Python number; booleans are the integers 0 and 1.\<close>

fun num_of :: "pyval \<Rightarrow> rat option" where
  "num_of (PBool b) = Some (if b then 1 else 0)"
| "num_of (PInt n) = Some (of_int n)"
| "num_of (PFloat r) = Some r"
| "num_of v = None"

text \<open>Python's \<open>==\<close> on these values: numbers compare by value, NaN equals nothing.\<close>

definition py_eq :: "pyval \<Rightarrow> pyval \<Rightarrow> bool" where
  "py_eq a b = (case (num_of a, num_of b) of
       (Some x, Some y) \<Rightarrow> x = y
     | (None, None) \<Rightarrow> a = b \<and> \<not> isna a \<or> a = PNone \<and> b = PNone
     | _ \<Rightarrow> False)"

text \<open>
  One element of \<open>series == scalar\<close> in pandas: a missing value on either side gives
  \<open>False\<close>, everything else is Python's \<open>==\<close>.
\<close>

definition series_eq :: "pyval \<Rightarrow> pyval \<Rightarrow> bool" where
  "series_eq cell v = (\<not> isna cell \<and> \<not> isna v \<and> py_eq cell v)"

text \<open>\<open>x > 0\<close> and true division \<open>a / b\<close>.\<close>

definition py_gt0 :: "pyval \<Rightarrow> pyerr + bool" where
  "py_gt0 v = (if v = PNaN then Inr False
     else case num_of v of None \<Rightarrow> Inl TypeError | Some x \<Rightarrow> Inr (0 < x))"

definition is_number :: "pyval \<Rightarrow> bool" where
  "is_number v = (v = PNaN \<or> num_of v \<noteq> None)"

definition py_truediv :: "pyval \<Rightarrow> pyval \<Rightarrow> pyerr + pyval" where
  "py_truediv a b =
     (if is_number a \<and> is_number b then
        (case num_of b of
           None \<Rightarrow> Inr PNaN
         | Some y \<Rightarrow>
             if y = 0 then Inl ZeroDivisionError
             else (case num_of a of None \<Rightarrow> Inr PNaN | Some x \<Rightarrow> Inr (PFloat (x / y))))
      else Inl TypeError)"

subsection \<open>The built-in \<open>int\<close>\<close>

text \<open>
  \<open>int(s)\<close> on text, as the interpreter does it. The text is read as code points (the
  model holds its UTF-8 bytes, which \<open>decode_utf8\<close> turns into code points; bytes that are
  no UTF-8 stand for the replacement character). If some code point is outside ASCII, every
  Unicode space becomes a blank and every Unicode decimal digit becomes its ASCII digit,
  and any other code point from 127 on becomes a question mark. The resulting ASCII text
  must consist of optional whitespace, an optional sign, decimal digits with single
  underscores allowed between digits, and optional whitespace; and it may hold at most
  4300 digits (the interpreter's default limit). Otherwise \<open>ValueError\<close> is raised. On
  \<open>None\<close>, \<open>int\<close> raises \<open>TypeError\<close>; on NaN it raises \<open>ValueError\<close>.
\<close>

fun decode_utf8 :: "nat list \<Rightarrow> nat list" where
  "decode_utf8 [] = []"
| "decode_utf8 (b # bs) =
     (if b < 128 then b # decode_utf8 bs
      else if 192 \<le> b \<and> b < 224 then
        (case bs of
           b1 # r \<Rightarrow> ((b - 192) * 64 + (b1 - 128)) # decode_utf8 r
         | _ \<Rightarrow> [65533])
      else if 224 \<le> b \<and> b < 240 then
        (case bs of
           b1 # b2 # r \<Rightarrow> ((b - 224) * 4096 + (b1 - 128) * 64 + (b2 - 128)) # decode_utf8 r
         | _ \<Rightarrow> [65533])
      else if 240 \<le> b \<and> b < 248 then
        (case bs of
           b1 # b2 # b3 # r \<Rightarrow>
             ((b - 240) * 262144 + (b1 - 128) * 4096 + (b2 - 128) * 64 + (b3 - 128)) # decode_utf8 r
         | _ \<Rightarrow> [65533])
      else 65533 # decode_utf8 bs)"

text \<open>The code points beyond ASCII that count as whitespace.\<close>

definition unicode_spaces :: "nat list" where
  "unicode_spaces =
     [0x85, 0xA0, 0x1680, 0x2000, 0x2001, 0x2002, 0x2003, 0x2004, 0x2005, 0x2006, 0x2007,
      0x2008, 0x2009, 0x200A, 0x2028, 0x2029, 0x202F, 0x205F, 0x3000]"

text \<open>
  The Unicode decimal digits come in runs of ten consecutive code points, for the digits 0
  to 9; these are the first code points of the runs.
\<close>

definition decimal_starts :: "nat list" where
  "decimal_starts =
     [0x30, 0x660, 0x6F0, 0x7C0, 0x966, 0x9E6, 0xA66, 0xAE6, 0xB66, 0xBE6, 0xC66, 0xCE6, 0xD66,
      0xDE6, 0xE50, 0xED0, 0xF20, 0x1040, 0x1090, 0x17E0, 0x1810, 0x1946, 0x19D0, 0x1A80, 0x1A90,
      0x1B50, 0x1BB0, 0x1C40, 0x1C50, 0xA620, 0xA8D0, 0xA900, 0xA9D0, 0xA9F0, 0xAA50, 0xABF0,
      0xFF10, 0x104A0, 0x10D30, 0x11066, 0x110F0, 0x11136, 0x111D0, 0x112F0, 0x11450, 0x114D0,
      0x11650, 0x116C0, 0x11730, 0x118E0, 0x11950, 0x11C50, 0x11D50, 0x11DA0, 0x16A60, 0x16AC0,
      0x16B50, 0x1D7CE, 0x1D7D8, 0x1D7E2, 0x1D7EC, 0x1D7F6, 0x1E140, 0x1E2F0, 0x1E950, 0x1FBF0]"

definition unicode_decimal :: "nat \<Rightarrow> nat option" where
  "unicode_decimal cp =
     (case find (\<lambda>s. s \<le> cp \<and> cp < s + 10) decimal_starts of
        None \<Rightarrow> None
      | Some s \<Rightarrow> Some (cp - s))"

definition to_ascii :: "nat list \<Rightarrow> nat list" where
  "to_ascii cps =
     (if list_all (\<lambda>cp. cp < 128) cps then cps
      else map (\<lambda>cp. if cp < 127 then cp
                      else if cp \<in> set unicode_spaces then 32
                      else (case unicode_decimal cp of None \<Rightarrow> 63 | Some d \<Rightarrow> 48 + d)) cps)"

text \<open>The ASCII whitespace of the C library: tab to carriage return, and the blank.\<close>

definition c_isspace :: "nat \<Rightarrow> bool" where
  "c_isspace c = (c \<in> set [9, 10, 11, 12, 13, 32])"

definition digit_val :: "nat \<Rightarrow> nat option" where
  "digit_val c = (if 48 \<le> c \<and> c \<le> 57 then Some (c - 48) else None)"

text \<open>The digits after the first one; 95 is the underscore.\<close>

fun parse_digits :: "nat \<Rightarrow> nat list \<Rightarrow> nat option" where
  "parse_digits acc [] = Some acc"
| "parse_digits acc [c] = map_option (\<lambda>v. acc * 10 + v) (digit_val c)"
| "parse_digits acc (c # d # ds) =
     (if c = 95 then
        (case digit_val d of None \<Rightarrow> None | Some v \<Rightarrow> parse_digits (acc * 10 + v) ds)
      else (case digit_val c of None \<Rightarrow> None | Some v \<Rightarrow> parse_digits (acc * 10 + v) (d # ds)))"

definition max_str_digits :: nat where
  "max_str_digits = 4300"

text \<open>The literal in ASCII; 45 is the minus sign and 43 the plus sign.\<close>

definition parse_ascii_int :: "nat list \<Rightarrow> int option" where
  "parse_ascii_int cs =
     (case rev (dropWhile c_isspace (rev (dropWhile c_isspace cs))) of
        [] \<Rightarrow> None
      | c # rest \<Rightarrow>
          (let neg = (c = 45);
               ds = (if c = 45 \<or> c = 43 then rest else c # rest)
           in if max_str_digits < length (filter (\<lambda>d. 48 \<le> d \<and> d \<le> 57) ds) then None
              else (case ds of
                      [] \<Rightarrow> None
                    | d # more \<Rightarrow>
                        (case digit_val d of
                           None \<Rightarrow> None
                         | Some v \<Rightarrow>
                             map_option (\<lambda>n. if neg then - int n else int n)
                               (parse_digits v more)))))"

definition parse_int :: "string \<Rightarrow> int option" where
  "parse_int s = parse_ascii_int (to_ascii (decode_utf8 (map of_char s)))"

fun py_int :: "pyval \<Rightarrow> pyerr + int" where
  "py_int PNone = Inl TypeError"
| "py_int PNaN = Inl ValueError"
| "py_int (PBool b) = Inr (if b then 1 else 0)"
| "py_int (PInt n) = Inr n"
| "py_int (PFloat r) = Inr (if 0 \<le> r then \<lfloor>r\<rfloor> else \<lceil>r\<rceil>)"
| "py_int (PStr s) = (case parse_int s of None \<Rightarrow> Inl ValueError | Some n \<Rightarrow> Inr n)"

subsection \<open>Dictionaries\<close>

text \<open>
  A Python \<open>dict\<close> keeps its keys in insertion order; assigning to a key that is present
  replaces the value in place. Keys of the dictionaries below are text or \<open>None\<close>.
\<close>

type_synonym 'v pydict = "(pyval \<times> 'v) list"

fun dict_set :: "pyval \<Rightarrow> 'v \<Rightarrow> 'v pydict \<Rightarrow> 'v pydict" where
  "dict_set k v [] = [(k, v)]"
| "dict_set k v ((k', v') # d) = (if k' = k then (k, v) # d else (k', v') # dict_set k v d)"

definition dict_get :: "'v pydict \<Rightarrow> pyval \<Rightarrow> 'v option" where
  "dict_get d k = map_of d k"

definition dict_keys :: "'v pydict \<Rightarrow> pyval list" where
  "dict_keys d = map fst d"

section \<open>Tables\<close>

text \<open>
  A pandas \<open>DataFrame\<close>: the column labels and the rows, each row holding one cell per
  column. Column labels of a frame are taken to be pairwise distinct wherever a column is
  addressed by its label (pandas then yields one column).
\<close>

record 'l frame =
  columns :: "'l list"
  rows :: "pyval list list"

fun index_of :: "'a \<Rightarrow> 'a list \<Rightarrow> nat option" where
  "index_of x [] = None"
| "index_of x (y # ys) = (if y = x then Some 0 else map_option Suc (index_of x ys))"

definition cell_at :: "nat \<Rightarrow> pyval list \<Rightarrow> pyval" where
  "cell_at i r = (if i < length r then r ! i else PNone)"

text \<open>The cell of a row under a label that is known to be a column of the frame.\<close>

definition column_cell :: "'l list \<Rightarrow> 'l \<Rightarrow> pyval list \<Rightarrow> pyval" where
  "column_cell cols label r = (case index_of label cols of None \<Rightarrow> PNone | Some i \<Rightarrow> cell_at i r)"

text \<open>\<open>DataFrame.empty\<close>: some axis has length zero.\<close>

definition frame_empty :: "'l frame \<Rightarrow> bool" where
  "frame_empty df = (rows df = [] \<or> columns df = [])"

subsection \<open>Reading a sheet as a frame (\<open>SpreadsheetUtils.read_as_dataframe\<close>)\<close>

text \<open>
  The sheet service returns a list of rows of text cells, trailing empty cells left out.
  With a header, the first row gives the labels. pandas pads short rows with \<open>None\<close> and
  raises \<open>ValueError\<close> when the longest data row does not have as many cells as the header.
\<close>

definition pad_row :: "nat \<Rightarrow> string list \<Rightarrow> pyval list" where
  "pad_row n r = map PStr r @ replicate (n - length r) PNone"

definition read_as_dataframe :: "string list list \<Rightarrow> pyerr + string frame" where
  "read_as_dataframe vals =
     (case vals of
        [] \<Rightarrow> Inr \<lparr>columns = [], rows = []\<rparr>
      | headers # data \<Rightarrow>
          if data = [] then Inr \<lparr>columns = headers, rows = []\<rparr>
          else if fold max (map length data) 0 = length headers
          then Inr \<lparr>columns = headers, rows = map (pad_row (length headers)) data\<rparr>
          else Inl ValueError)"

section \<open>The metrics configuration (\<open>MetricsConfigUtils\<close>)\<close>

text \<open>
  Every function below reads the cached configuration frame; the frame is the argument
  \<open>df\<close>. \<open>str.lower\<close> is modelled on ASCII letters, which decides the comparisons with
  \<open>'active'\<close> and \<open>'calc'\<close> exactly.
\<close>

definition lower_char :: "char \<Rightarrow> char" where
  "lower_char c =
     (case map_of (zip ''ABCDEFGHIJKLMNOPQRSTUVWXYZ'' ''abcdefghijklmnopqrstuvwxyz'') c of
        None \<Rightarrow> c
      | Some l \<Rightarrow> l)"

definition lower :: "string \<Rightarrow> string" where
  "lower s = map lower_char s"

text \<open>
  The test \<open>(col == True) | (col == 'TRUE') | (col == 'True')\<close> that every reader of the
  active flag applies to a cell.
\<close>

definition is_active :: "pyval \<Rightarrow> bool" where
  "is_active v = (series_eq v (PBool True) \<or> series_eq v (PStr ''TRUE'') \<or> series_eq v (PStr ''True''))"

definition excluded_fields :: "string list" where
  "excluded_fields = [''campaign_status'', ''period_days'', ''limit'']"

text \<open>One element of \<open>series.isin(excluded_fields)\<close>.\<close>

definition isin :: "pyval \<Rightarrow> string list \<Rightarrow> bool" where
  "isin v xs = (case v of PStr s \<Rightarrow> s \<in> set xs | _ \<Rightarrow> False)"

text \<open>One element of \<open>series.isna() | (series == '')\<close>.\<close>

definition is_blank :: "pyval \<Rightarrow> bool" where
  "is_blank v = (isna v \<or> v = PStr [])"

text \<open>\<open>get_active_metrics\<close>: the names of the active rows that are not parameter rows.\<close>

definition get_active_metrics :: "string frame \<Rightarrow> pyerr + pyval list" where
  "get_active_metrics df =
     (case index_of ''active'' (columns df) of
        None \<Rightarrow> Inl KeyError
      | Some a \<Rightarrow>
          (case index_of ''metrics'' (columns df) of
             None \<Rightarrow> Inl KeyError
           | Some m \<Rightarrow>
               Inr (map (cell_at m)
                      (filter (\<lambda>r. \<not> isin (cell_at m r) excluded_fields)
                         (filter (\<lambda>r. is_active (cell_at a r)) (rows df))))))"

text \<open>
  \<open>get_active_metrics_list\<close>: the fields to request. The active and the formula column are
  found by their lower-cased label, the first match winning (the loops break).
\<close>

definition get_active_metrics_list :: "string frame \<Rightarrow> pyerr + pyval list" where
  "get_active_metrics_list df =
     (let cols = columns df;
          active_column = find (\<lambda>c. lower c = ''active'') cols;
          active_metrics = (case active_column of
                              None \<Rightarrow> rows df
                            | Some a \<Rightarrow> filter (\<lambda>r. is_active (column_cell cols a r)) (rows df));
          calc_column = find (\<lambda>c. lower c = ''calc'') cols
      in case index_of ''metrics'' cols of
           None \<Rightarrow> Inl KeyError
         | Some m \<Rightarrow>
             (case calc_column of
                Some c \<Rightarrow>
                  Inr (map (cell_at m)
                         (filter (\<lambda>r. \<not> isin (cell_at m r) excluded_fields
                                       \<and> is_blank (column_cell cols c r)) active_metrics))
              | None \<Rightarrow>
                  Inr (map (cell_at m)
                         (filter (\<lambda>r. \<not> isin (cell_at m r) excluded_fields) active_metrics))))"

text \<open>
  \<open>get_calculated_metrics\<close>: the derived metrics, a dictionary from metric name to display
  name and formula. Its column loop has no \<open>break\<close>, so the last matching label wins. The
  row loop reads \<open>row['name']\<close> and \<open>row['metrics']\<close>, which raise when there is a row to
  read and the column is missing.
\<close>

definition get_calculated_metrics :: "string frame \<Rightarrow> pyerr + (pyval \<times> pyval) pydict" where
  "get_calculated_metrics df =
     (let cols = columns df;
          active_column = find (\<lambda>c. lower c = ''active'') (rev cols);
          calc_column = find (\<lambda>c. lower c = ''calc'') (rev cols)
      in case calc_column of
           None \<Rightarrow> Inr []
         | Some c \<Rightarrow>
             (let calc_metrics =
                    filter (\<lambda>r. (case active_column of
                                     None \<Rightarrow> True
                                   | Some a \<Rightarrow> is_active (column_cell cols a r))
                                 \<and> \<not> is_blank (column_cell cols c r)) (rows df)
              in if calc_metrics = [] then Inr []
                 else (case index_of ''name'' cols of
                         None \<Rightarrow> Inl KeyError
                       | Some n \<Rightarrow>
                           (case index_of ''metrics'' cols of
                              None \<Rightarrow> Inl KeyError
                            | Some m \<Rightarrow>
                                Inr (fold (\<lambda>r. dict_set (cell_at m r) (cell_at n r, column_cell cols c r))
                                       calc_metrics [])))))"

text \<open>
  \<open>get_query_parameters\<close>: the three query parameters, read from the active rows. A
  parameter is set when its row exists and its parameter cell is not missing; the two
  numeric ones go through \<open>int\<close>, which is not guarded here. Parameters that were not set
  get their defaults.
\<close>

definition read_param ::
    "string frame \<Rightarrow> nat \<Rightarrow> pyval list list \<Rightarrow> string \<Rightarrow> pyval pydict \<Rightarrow> pyerr + pyval pydict" where
  "read_param df m active_params param params =
     (case filter (\<lambda>r. series_eq (cell_at m r) (PStr param)) active_params of
        [] \<Rightarrow> Inr params
      | r # _ \<Rightarrow>
          (case index_of ''parameter'' (columns df) of
             None \<Rightarrow> Inl KeyError
           | Some p \<Rightarrow>
               if isna (cell_at p r) then Inr params
               else if param \<in> set [''period_days'', ''limit'']
               then and_then (py_int (cell_at p r)) (\<lambda>n. Inr (dict_set (PStr param) (PInt n) params))
               else Inr (dict_set (PStr param) (cell_at p r) params)))"

definition set_default :: "string \<Rightarrow> pyval \<Rightarrow> pyval pydict \<Rightarrow> pyval pydict" where
  "set_default k v params = (if PStr k \<in> set (dict_keys params) then params else dict_set (PStr k) v params)"

definition get_query_parameters :: "string frame \<Rightarrow> pyerr + pyval pydict" where
  "get_query_parameters df =
     (case index_of ''active'' (columns df) of
        None \<Rightarrow> Inl KeyError
      | Some a \<Rightarrow>
          (case index_of ''metrics'' (columns df) of
             None \<Rightarrow> Inl KeyError
           | Some m \<Rightarrow>
               (let active_params = filter (\<lambda>r. is_active (cell_at a r)) (rows df)
                in and_then (read_param df m active_params ''campaign_status'' []) (\<lambda>p1.
                   and_then (read_param df m active_params ''period_days'' p1) (\<lambda>p2.
                   and_then (read_param df m active_params ''limit'' p2) (\<lambda>p3.
                   Inr (set_default ''limit'' (PInt 100)
                         (set_default ''period_days'' (PInt 30)
                           (set_default ''campaign_status'' (PStr ''ENABLED'') p3)))))))))"

text \<open>
  \<open>get_period_days\<close> and \<open>get_limit\<close>, the getters that the live query uses. They look at
  every row, active or not, take the first row of the parameter, and fall back to the
  default when \<open>int\<close> raises \<open>ValueError\<close>; any other exception of \<open>int\<close> propagates.
\<close>

definition get_period_days :: "string frame \<Rightarrow> pyerr + int" where
  "get_period_days df =
     (case index_of ''metrics'' (columns df) of
        None \<Rightarrow> Inl KeyError
      | Some m \<Rightarrow>
          (case filter (\<lambda>r. series_eq (cell_at m r) (PStr ''period_days'')) (rows df) of
             [] \<Rightarrow> Inr 30
           | r # _ \<Rightarrow>
               (case index_of ''parameter'' (columns df) of
                  None \<Rightarrow> Inl KeyError
                | Some p \<Rightarrow>
                    (case py_int (cell_at p r) of
                       Inr n \<Rightarrow> Inr n
                     | Inl e \<Rightarrow> if e = ValueError then Inr 30 else Inl e))))"

definition get_limit :: "string frame \<Rightarrow> pyerr + int" where
  "get_limit df =
     (case index_of ''metrics'' (columns df) of
        None \<Rightarrow> Inl KeyError
      | Some m \<Rightarrow>
          (case filter (\<lambda>r. series_eq (cell_at m r) (PStr ''limit'')) (rows df) of
             [] \<Rightarrow> Inr 100
           | r # _ \<Rightarrow>
               (case index_of ''parameter'' (columns df) of
                  None \<Rightarrow> Inl KeyError
                | Some p \<Rightarrow>
                    (case py_int (cell_at p r) of
                       Inr n \<Rightarrow> Inr n
                     | Inl e \<Rightarrow> if e = ValueError then Inr 100 else Inl e))))"

section \<open>Shaping campaign records (\<open>GoogleAdsAPI\<close>)\<close>

subsection \<open>Loops that may raise\<close>

fun fold_err :: "('a \<Rightarrow> 's \<Rightarrow> pyerr + 's) \<Rightarrow> 'a list \<Rightarrow> 's \<Rightarrow> pyerr + 's" where
  "fold_err f [] s = Inr s"
| "fold_err f (x # xs) s = and_then (f x s) (fold_err f xs)"

fun map_err :: "('a \<Rightarrow> pyerr + 'b) \<Rightarrow> 'a list \<Rightarrow> pyerr + 'b list" where
  "map_err f [] = Inr []"
| "map_err f (x # xs) = and_then (f x) (\<lambda>y. and_then (map_err f xs) (\<lambda>ys. Inr (y # ys)))"

subsection \<open>Field names and record keys\<close>

text \<open>\<open>get_field_mapping\<close>: the query field of a metric; unknown metrics pass through.\<close>

definition field_mapping :: "(string \<times> string) list" where
  "field_mapping =
     [(''impressions'', ''metrics.impressions''),
      (''clicks'', ''metrics.clicks''),
      (''cost_micros'', ''metrics.cost_micros''),
      (''conversions'', ''metrics.conversions''),
      (''ctr'', ''metrics.ctr''),
      (''average_cpc'', ''metrics.average_cpc''),
      (''search_top_impression_share'', ''metrics.search_top_impression_share'')]"

definition get_field_mapping :: "pyval \<Rightarrow> pyval" where
  "get_field_mapping metric =
     (case metric of
        PStr s \<Rightarrow> (case map_of field_mapping s of None \<Rightarrow> metric | Some f \<Rightarrow> PStr f)
      | _ \<Rightarrow> metric)"

text \<open>
  The four fixed keys of a campaign record and the key of the retrieval time are Japanese
  text in the source; they are given here by their UTF-8 bytes.
\<close>

definition key_campaign_id :: string where
  "key_campaign_id = [CHR 0xE3, CHR 0x82, CHR 0xAD, CHR 0xE3, CHR 0x83, CHR 0xA3, CHR 0xE3, CHR 0x83,
     CHR 0xB3, CHR 0xE3, CHR 0x83, CHR 0x9A, CHR 0xE3, CHR 0x83, CHR 0xBC, CHR 0xE3, CHR 0x83, CHR 0xB3,
     CHR 0x49, CHR 0x44]"

definition key_campaign_name :: string where
  "key_campaign_name = [CHR 0xE3, CHR 0x82, CHR 0xAD, CHR 0xE3, CHR 0x83, CHR 0xA3, CHR 0xE3, CHR 0x83,
     CHR 0xB3, CHR 0xE3, CHR 0x83, CHR 0x9A, CHR 0xE3, CHR 0x83, CHR 0xBC, CHR 0xE3, CHR 0x83, CHR 0xB3,
     CHR 0xE5, CHR 0x90, CHR 0x8D]"

definition key_status :: string where
  "key_status = [CHR 0xE3, CHR 0x82, CHR 0xB9, CHR 0xE3, CHR 0x83, CHR 0x86, CHR 0xE3, CHR 0x83,
     CHR 0xBC, CHR 0xE3, CHR 0x82, CHR 0xBF, CHR 0xE3, CHR 0x82, CHR 0xB9]"

definition key_campaign_type :: string where
  "key_campaign_type = [CHR 0xE3, CHR 0x82, CHR 0xAD, CHR 0xE3, CHR 0x83, CHR 0xA3, CHR 0xE3, CHR 0x83,
     CHR 0xB3, CHR 0xE3, CHR 0x83, CHR 0x9A, CHR 0xE3, CHR 0x83, CHR 0xBC, CHR 0xE3, CHR 0x83, CHR 0xB3,
     CHR 0xE3, CHR 0x82, CHR 0xBF, CHR 0xE3, CHR 0x82, CHR 0xA4, CHR 0xE3, CHR 0x83, CHR 0x97]"

definition key_retrieved_at :: string where
  "key_retrieved_at = [CHR 0xE5, CHR 0x8F, CHR 0x96, CHR 0xE5, CHR 0xBE, CHR 0x97, CHR 0xE6, CHR 0x97,
     CHR 0xA5, CHR 0xE6, CHR 0x99, CHR 0x82]"

definition dummy_name_prefix :: string where
  "dummy_name_prefix = [CHR 0xE3, CHR 0x83, CHR 0x86, CHR 0xE3, CHR 0x82, CHR 0xB9, CHR 0xE3, CHR 0x83,
     CHR 0x88, CHR 0xE3, CHR 0x82, CHR 0xAD, CHR 0xE3, CHR 0x83, CHR 0xA3, CHR 0xE3, CHR 0x83, CHR 0xB3,
     CHR 0xE3, CHR 0x83, CHR 0x9A, CHR 0xE3, CHR 0x83, CHR 0xBC, CHR 0xE3, CHR 0x83, CHR 0xB3, CHR 0x20]"

subsection \<open>Decimal text of an integer\<close>

fun digits_of :: "nat \<Rightarrow> string" where
  "digits_of n = (if n < 10 then [''0123456789'' ! n]
                  else digits_of (n div 10) @ [''0123456789'' ! (n mod 10)])"

declare digits_of.simps [simp del]

definition str_of_int :: "int \<Rightarrow> string" where
  "str_of_int i = (if i < 0 then CHR ''-'' # digits_of (nat (- i)) else digits_of (nat i))"

subsection \<open>Requested metrics of one record\<close>

text \<open>
  The display name of a metric: the \<open>name\<close> cell of the first configuration row of the
  metric, or the metric itself when the configuration has no such row.
\<close>

definition metric_display_name :: "string frame \<Rightarrow> pyval \<Rightarrow> pyerr + pyval" where
  "metric_display_name df metric =
     (case index_of ''metrics'' (columns df) of
        None \<Rightarrow> Inl KeyError
      | Some m \<Rightarrow>
          (case filter (\<lambda>r. series_eq (cell_at m r) metric) (rows df) of
             [] \<Rightarrow> Inr metric
           | r # _ \<Rightarrow>
               (case index_of ''name'' (columns df) of
                  None \<Rightarrow> Inl KeyError
                | Some n \<Rightarrow> Inr (cell_at n r))))"

text \<open>
  Both generators of records run the same loop over the requested metrics: look up the
  display name, obtain a value for the metric, and store it in the record under the display
  name and in \<open>variables\<close> under the metric. They differ in how the value is obtained
  (\<open>value_of\<close>); \<open>None\<close> there means that nothing is stored. The state is the pair of the
  record and \<open>variables\<close>.
\<close>

definition store_metric ::
    "string frame \<Rightarrow> (pyval \<Rightarrow> pyerr + pyval option) \<Rightarrow> pyval
       \<Rightarrow> pyval pydict \<times> pyval pydict \<Rightarrow> pyerr + pyval pydict \<times> pyval pydict" where
  "store_metric df value_of metric st =
     and_then (metric_display_name df metric) (\<lambda>metric_name.
     and_then (value_of metric) (\<lambda>v.
       case v of
         None \<Rightarrow> Inr st
       | Some value \<Rightarrow> Inr (dict_set metric_name value (fst st), dict_set metric value (snd st))))"

text \<open>
  A row of the query service: the campaign with the symbolic names of its two enums, and
  the metrics object, whose attributes are a partial map. \<open>hasattr\<close> raises \<open>TypeError\<close>
  when the attribute name is no text.
\<close>

record raw_row =
  campaign_id :: pyval
  campaign_name :: pyval
  campaign_status_name :: string
  advertising_channel_type_name :: string
  metrics :: "string \<Rightarrow> pyval option"

text \<open>Live mode: the value of the metrics object, cost in micros divided by 1000000.\<close>

definition live_value :: "raw_row \<Rightarrow> pyval \<Rightarrow> pyerr + pyval option" where
  "live_value row metric =
     (case metric of
        PStr s \<Rightarrow>
          (case metrics row s of
             None \<Rightarrow> Inr None
           | Some value \<Rightarrow>
               if metric = PStr ''cost_micros''
               then and_then (py_truediv value (PInt 1000000)) (\<lambda>v. Inr (Some v))
               else Inr (Some value))
      | _ \<Rightarrow> Inl TypeError)"

text \<open>Dummy mode: the value generated for campaign number \<open>i\<close>.\<close>

definition dummy_value :: "int \<Rightarrow> pyval \<Rightarrow> pyval" where
  "dummy_value i metric =
     (if metric = PStr ''impressions'' then PInt (i * 1000 + (i * 100))
      else if metric = PStr ''clicks'' then PInt (i * 50 + (i * 10))
      else if metric = PStr ''cost_micros'' then PFloat (of_int (i * 5000 + (i * 500)) / 1000000)
      else if metric = PStr ''conversions'' then PFloat (of_int (i * 2) + of_int i * (5 / 10))
      else if metric = PStr ''ctr'' then PFloat (5 / 100 + of_int i * (5 / 1000))
      else if metric = PStr ''average_cpc'' then PInt (100 + (i * 10))
      else if metric = PStr ''search_top_impression_share'' then PFloat (3 / 10 + of_int i * (5 / 100))
      else PInt (i * 10))"

subsection \<open>Derived metrics of one record\<close>

text \<open>
  The formula of a derived metric is evaluated by Python's \<open>eval\<close> with no builtins and
  \<open>variables\<close> as its names. The evaluator is not modelled: it is the parameter \<open>ev\<close>, which
  takes the formula and \<open>variables\<close> and either returns a value or raises an exception.
\<close>

type_synonym evaluator = "pyval \<Rightarrow> pyval pydict \<Rightarrow> pyerr + pyval"

text \<open>The body of the \<open>try\<close>: the special case of the conversion rate, or the evaluator.\<close>

definition calc_result :: "evaluator \<Rightarrow> pyval \<Rightarrow> pyval \<Rightarrow> pyval pydict \<Rightarrow> pyerr + pyval" where
  "calc_result ev metric calc_expr variables =
     (case (dict_get variables (PStr ''conversions''), dict_get variables (PStr ''clicks'')) of
        (Some conversions, Some clicks) \<Rightarrow>
          if metric = PStr ''conversion_rate''
          then and_then (py_gt0 clicks)
                 (\<lambda>positive. if positive then py_truediv conversions clicks else Inr (PInt 0))
          else ev calc_expr variables
      | _ \<Rightarrow> ev calc_expr variables)"

text \<open>
  One round of the loop over the derived metrics: \<open>except Exception\<close> turns every failure
  of the body into the value \<open>None\<close> for this field, and the loop goes on.
\<close>

definition add_calculated_metric ::
    "evaluator \<Rightarrow> pyval pydict \<Rightarrow> pyval \<times> pyval \<times> pyval \<Rightarrow> pyval pydict \<Rightarrow> pyval pydict" where
  "add_calculated_metric ev variables entry campaign_data =
     (case entry of (metric, metric_name, calc_expr) \<Rightarrow>
        (case calc_result ev metric calc_expr variables of
           Inr result \<Rightarrow> dict_set metric_name result campaign_data
         | Inl calc_error \<Rightarrow> dict_set metric_name PNone campaign_data))"

subsection \<open>Live mode (\<open>get_campaign_metrics\<close>)\<close>

definition campaign_base :: "raw_row \<Rightarrow> pyval pydict" where
  "campaign_base row =
     [(PStr key_campaign_id, campaign_id row),
      (PStr key_campaign_name, campaign_name row),
      (PStr key_status, PStr (campaign_status_name row)),
      (PStr key_campaign_type, PStr (advertising_channel_type_name row))]"

text \<open>The body of the loop over the rows of the response.\<close>

definition shape_row ::
    "evaluator \<Rightarrow> string frame \<Rightarrow> pyval list \<Rightarrow> (pyval \<times> pyval) pydict \<Rightarrow> raw_row
       \<Rightarrow> pyerr + pyval pydict" where
  "shape_row ev df active_metrics_list calculated_metrics row =
     and_then (fold_err (store_metric df (live_value row)) active_metrics_list (campaign_base row, []))
       (\<lambda>st. Inr (fold (add_calculated_metric ev (snd st)) calculated_metrics (fst st)))"

subsection \<open>Dates\<close>

text \<open>
  A \<open>datetime.date\<close> is given by its proleptic Gregorian ordinal (day 1 is 0001-01-01,
  the last day 3652059 is 9999-12-31). \<open>ord2ymd\<close> follows the library's conversion of an
  ordinal to year, month and day. \<open>strftime('%Y-%m-%d')\<close> prints the year in decimal
  without padding, as the C library of Linux does (so years before 1000 have fewer than
  four digits), and month and day with two digits.
\<close>

definition days_before_month :: "nat list" where
  "days_before_month = [0, 31, 59, 90, 120, 151, 181, 212, 243, 273, 304, 334]"

definition days_in_month :: "nat list" where
  "days_in_month = [31, 28, 31, 30, 31, 30, 31, 31, 30, 31, 30, 31]"

definition ord2ymd :: "nat \<Rightarrow> nat \<times> nat \<times> nat" where
  "ord2ymd ordinal =
     (let n = ordinal - 1;
          n400 = n div 146097; r400 = n mod 146097;
          n100 = r400 div 36524; r100 = r400 mod 36524;
          n4 = r100 div 1461; r4 = r100 mod 1461;
          n1 = r4 div 365; r1 = r4 mod 365;
          year = n400 * 400 + 1 + n100 * 100 + n4 * 4 + n1
      in if n1 = 4 \<or> n100 = 4 then (year - 1, 12, 31)
         else (let leapyear = (n1 = 3 \<and> (n100 = 3 \<or> n4 \<noteq> 24));
                   month = (r1 + 50) div 32;
                   preceding = days_before_month ! (month - 1)
                                 + (if 2 < month \<and> leapyear then 1 else 0)
               in if r1 < preceding
                  then (let month' = month - 1;
                            preceding' = preceding - (days_in_month ! (month' - 1)
                                           + (if month' = 2 \<and> leapyear then 1 else 0))
                        in (year, month', r1 - preceding' + 1))
                  else (year, month, r1 - preceding + 1)))"

definition zero_pad :: "nat \<Rightarrow> string \<Rightarrow> string" where
  "zero_pad w s = replicate (w - length s) (CHR ''0'') @ s"

definition strftime_ymd :: "int \<Rightarrow> string" where
  "strftime_ymd d =
     (case ord2ymd (nat d) of (y, m, dd) \<Rightarrow>
        digits_of y @ ''-'' @ zero_pad 2 (digits_of m) @ ''-'' @ zero_pad 2 (digits_of dd))"

text \<open>
  \<open>today - datetime.timedelta(days=days_ago)\<close>: the delta and the resulting date must be
  in range, otherwise \<open>OverflowError\<close> is raised.
\<close>

definition date_minus_days :: "int \<Rightarrow> int \<Rightarrow> pyerr + int" where
  "date_minus_days today days_ago =
     (if 999999999 < \<bar>days_ago\<bar> then Inl OverflowError
      else if 1 \<le> today - days_ago \<and> today - days_ago \<le> 3652059 then Inr (today - days_ago)
      else Inl OverflowError)"

subsection \<open>The query of the live mode\<close>

text \<open>\<open>sep.join(xs)\<close>, which raises \<open>TypeError\<close> on an element that is no text.\<close>

fun join_strings :: "string \<Rightarrow> string list \<Rightarrow> string" where
  "join_strings sep [] = []"
| "join_strings sep [x] = x"
| "join_strings sep (x # y # ys) = x @ sep @ join_strings sep (y # ys)"

fun text_of :: "pyval \<Rightarrow> string option" where
  "text_of (PStr s) = Some s"
| "text_of v = None"

definition py_join :: "string \<Rightarrow> pyval list \<Rightarrow> pyerr + string" where
  "py_join sep xs =
     (if list_all (\<lambda>x. text_of x \<noteq> None) xs
      then Inr (join_strings sep (map (\<lambda>x. case x of PStr s \<Rightarrow> s | _ \<Rightarrow> []) xs))
      else Inl TypeError)"

text \<open>
  The text of the query that \<open>get_campaign_metrics\<close> builds, line by line as in the
  source, from the requested fields, the two dates and the row limit.
\<close>

definition campaign_query :: "pyval list \<Rightarrow> string \<Rightarrow> string \<Rightarrow> int \<Rightarrow> pyerr + string" where
  "campaign_query active_metrics_list start_date_str end_date_str limit =
     and_then (py_join '', '' (map get_field_mapping active_metrics_list)) (\<lambda>metrics_query_fields.
       Inr ([CHR 0x0A]
          @ ''            SELECT '' @ [CHR 0x0A]
          @ ''                campaign.id, '' @ [CHR 0x0A]
          @ ''                campaign.name, '' @ [CHR 0x0A]
          @ ''                campaign.status, '' @ [CHR 0x0A]
          @ ''                campaign.advertising_channel_type, '' @ [CHR 0x0A]
          @ ''                '' @ metrics_query_fields @ [CHR 0x0A]
          @ ''            FROM campaign '' @ [CHR 0x0A]
          @ ''            WHERE '' @ [CHR 0x0A]
          @ ''                campaign.status = '' @ [CHR 0x27] @ ''ENABLED'' @ [CHR 0x27] @ '' '' @ [CHR 0x0A]
          @ ''                AND segments.date >= '' @ [CHR 0x27] @ start_date_str @ [CHR 0x27] @ '' '' @ [CHR 0x0A]
          @ ''                AND segments.date <= '' @ [CHR 0x27] @ end_date_str @ [CHR 0x27] @ [CHR 0x0A]
          @ ''            LIMIT '' @ str_of_int limit @ [CHR 0x0A]
          @ ''            ''))"

text \<open>
  \<open>get_campaign_metrics\<close>. The configuration, the dates and the limit are read before the
  \<open>try\<close>, so their exceptions propagate. Inside the \<open>try\<close> the query is built and sent
  (\<open>search\<close> is the query service, which returns the rows or raises), and the rows are
  shaped; any exception there makes the function return \<open>None\<close>. Credentials and the
  set-up of the client are not represented; a failure of the client inside the \<open>try\<close> acts
  like a fault of \<open>search\<close>. \<open>today\<close> is the ordinal of the current date.
\<close>

definition get_campaign_metrics ::
    "evaluator \<Rightarrow> (string \<Rightarrow> string \<Rightarrow> pyerr + raw_row list) \<Rightarrow> string frame \<Rightarrow> int \<Rightarrow> string
       \<Rightarrow> pyerr + pyval pydict list option" where
  "get_campaign_metrics ev search df today client_customer_id =
     and_then (get_active_metrics_list df) (\<lambda>active_metrics_list.
     and_then (get_calculated_metrics df) (\<lambda>calculated_metrics.
     and_then (get_period_days df) (\<lambda>days_ago.
     and_then (date_minus_days today days_ago) (\<lambda>start_date.
     and_then (get_limit df) (\<lambda>limit.
       Inr (case and_then (campaign_query active_metrics_list (strftime_ymd start_date)
                             (strftime_ymd today) limit) (\<lambda>query.
                 and_then (search client_customer_id query) (\<lambda>response.
                   map_err (shape_row ev df active_metrics_list calculated_metrics) response)) of
              Inl e \<Rightarrow> None
            | Inr campaign_metrics \<Rightarrow> Some campaign_metrics))))))"

subsection \<open>Dummy mode (\<open>get_dummy_campaign_metrics\<close>)\<close>

definition dummy_base :: "int \<Rightarrow> pyval pydict" where
  "dummy_base i =
     [(PStr key_campaign_id, PStr (''10000'' @ str_of_int i)),
      (PStr key_campaign_name, PStr (dummy_name_prefix @ str_of_int i)),
      (PStr key_status, PStr ''ENABLED''),
      (PStr key_campaign_type, PStr ''SEARCH'')]"

text \<open>The body of the loop over the campaign numbers.\<close>

definition dummy_campaign ::
    "evaluator \<Rightarrow> string frame \<Rightarrow> pyval list \<Rightarrow> (pyval \<times> pyval) pydict \<Rightarrow> int
       \<Rightarrow> pyerr + pyval pydict" where
  "dummy_campaign ev df active_metrics_list calculated_metrics i =
     and_then (fold_err (store_metric df (\<lambda>metric. Inr (Some (dummy_value i metric))))
                 active_metrics_list (dummy_base i, []))
       (\<lambda>st. Inr (fold (add_calculated_metric ev (snd st)) calculated_metrics (fst st)))"

definition num_campaigns :: int where
  "num_campaigns = 10"

definition get_dummy_campaign_metrics :: "evaluator \<Rightarrow> string frame \<Rightarrow> pyerr + pyval pydict list" where
  "get_dummy_campaign_metrics ev df =
     and_then (get_active_metrics_list df) (\<lambda>active_metrics_list.
     and_then (get_calculated_metrics df) (\<lambda>calculated_metrics.
       map_err (dummy_campaign ev df active_metrics_list calculated_metrics) [1..num_campaigns]))"

subsection \<open>Occurrence of a text in a text\<close>

fun is_prefix :: "'a list \<Rightarrow> 'a list \<Rightarrow> bool" where
  "is_prefix [] ys = True"
| "is_prefix (x # xs) [] = False"
| "is_prefix (x # xs) (y # ys) = (x = y \<and> is_prefix xs ys)"

fun occurs_in :: "'a list \<Rightarrow> 'a list \<Rightarrow> bool" where
  "occurs_in xs [] = (xs = [])"
| "occurs_in xs (y # ys) = (is_prefix xs (y # ys) \<or> occurs_in xs ys)"

section \<open>Merging and persisting (\<open>main\<close>, step 3)\<close>

text \<open>
  The frame that was read from the sheet has text labels; as a frame of records its labels
  are Python values.
\<close>

definition relabel :: "string frame \<Rightarrow> pyval frame" where
  "relabel df = \<lparr>columns = map PStr (columns df), rows = rows df\<rparr>"

text \<open>
  \<open>pd.concat([existing_df, df], ignore_index=True)\<close>. Frames with the same labels are
  stacked. Otherwise the labels of the second frame that the first does not have are added
  after the labels of the first, every row is aligned to the new labels, and a cell that a
  row does not have becomes NaN; this alignment needs unique labels in both frames and
  raises otherwise. (Where the alignment adds NaN to a column of integers, pandas turns
  them into floats of the same value; the model leaves the cells as they are.)
\<close>

definition reindex_row :: "pyval list \<Rightarrow> pyval list \<Rightarrow> pyval list \<Rightarrow> pyval list" where
  "reindex_row cols new_cols r =
     map (\<lambda>c. case index_of c cols of None \<Rightarrow> PNaN | Some i \<Rightarrow> cell_at i r) new_cols"

definition concat_frames :: "pyval frame \<Rightarrow> pyval frame \<Rightarrow> pyerr + pyval frame" where
  "concat_frames a b =
     (if columns a = columns b then Inr \<lparr>columns = columns a, rows = rows a @ rows b\<rparr>
      else if distinct (columns a) \<and> distinct (columns b) then
        (let cols = columns a @ filter (\<lambda>c. c \<notin> set (columns a)) (columns b)
         in Inr \<lparr>columns = cols,
                 rows = map (reindex_row (columns a) cols) (rows a)
                          @ map (reindex_row (columns b) cols) (rows b)\<rparr>)
      else Inl InvalidIndexError)"

text \<open>
  \<open>SpreadsheetUtils.write_dataframe\<close> hands the header row followed by the rows of the
  frame to \<open>write_range\<close>.
\<close>

definition frame_values :: "pyval frame \<Rightarrow> pyval list list" where
  "frame_values df = columns df # rows df"

text \<open>
  Step 3 of \<open>main\<close>. \<open>rd\<close> is the outcome of \<open>read_range\<close> on the data sheet (the cells or
  a fault) and \<open>write_range\<close> is the sheet service's write, which returns the number of
  updated cells or raises. Reading, merging and the first write stand in one \<open>try\<close>; the
  handler of any exception there writes the new frame alone, and an exception of that
  second write propagates. The result is the list of the tables handed to \<open>write_range\<close>,
  in order, and the outcome.
\<close>

definition persist ::
    "pyerr + string list list \<Rightarrow> (pyval list list \<Rightarrow> pyerr + nat) \<Rightarrow> pyval frame
       \<Rightarrow> pyval list list list \<times> (pyerr + nat)" where
  "persist rd write_range df =
     (let first_try =
            (case and_then rd read_as_dataframe of
               Inl e \<Rightarrow> ([], Inl e)
             | Inr existing_df \<Rightarrow>
                 if frame_empty existing_df
                 then ([frame_values df], write_range (frame_values df))
                 else (case concat_frames (relabel existing_df) df of
                         Inl e \<Rightarrow> ([], Inl e)
                       | Inr combined_df \<Rightarrow>
                           ([frame_values combined_df], write_range (frame_values combined_df))))
      in case snd first_try of
           Inr n \<Rightarrow> first_try
         | Inl e \<Rightarrow> (fst first_try @ [frame_values df], write_range (frame_values df)))"

section \<open>Example configurations\<close>

text \<open>
  A configuration sheet as the loader delivers it, with the five columns of the range
  \<open>A1:E100\<close>, and a second one that has no active column. They serve as concrete inputs.
\<close>

definition sample_config :: "string frame" where
  "sample_config =
     \<lparr>columns = [''metrics'', ''name'', ''active'', ''calc'', ''parameter''],
      rows = [[PStr ''impressions'', PStr ''Impressions'', PStr ''TRUE'', PNone, PNone],
              [PStr ''clicks'', PStr ''Clicks'', PStr ''TRUE'', PNone, PNone],
              [PStr ''cost_micros'', PStr ''Cost'', PStr ''True'', PStr [], PNone],
              [PStr ''conversions'', PStr ''Conversions'', PStr ''TRUE'', PNone, PNone],
              [PStr ''ctr'', PStr ''CTR'', PStr ''FALSE'', PNone, PNone],
              [PStr ''conversion_rate'', PStr ''CVR'', PStr ''TRUE'', PStr ''conversions / clicks'', PNone],
              [PStr ''cost_per_click'', PStr ''CPC'', PStr ''TRUE'', PStr ''cost_micros / clicks'', PNone],
              [PStr ''campaign_status'', PStr ''Status'', PStr ''TRUE'', PNone, PStr ''PAUSED''],
              [PStr ''period_days'', PStr ''Days'', PStr ''TRUE'', PNone, PStr ''7''],
              [PStr ''limit'', PStr ''Limit'', PStr ''TRUE'', PNone, PStr ''50'']]\<rparr>"


definition sample_config_no_active :: "string frame" where
  "sample_config_no_active =
     \<lparr>columns = [''metrics'', ''name'', ''calc''],
      rows = [[PStr ''clicks'', PStr ''Clicks'', PNone],
              [PStr ''ctr'', PStr ''CTR'', PStr []],
              [PStr ''conversion_rate'', PStr ''CVR'', PStr ''conversions / clicks''],
              [PStr ''limit'', PStr ''Limit'', PNone]]\<rparr>"

text \<open>The sample configuration with the row limit set to the text \<open>abc\<close>.\<close>

definition sample_config_bad_limit :: "string frame" where
  "sample_config_bad_limit =
     \<lparr>columns = [''metrics'', ''name'', ''active'', ''calc'', ''parameter''],
      rows = [[PStr ''impressions'', PStr ''Impressions'', PStr ''TRUE'', PNone, PNone],
              [PStr ''campaign_status'', PStr ''Status'', PStr ''TRUE'', PNone, PStr ''PAUSED''],
              [PStr ''period_days'', PStr ''Days'', PStr ''TRUE'', PNone, PStr ''7''],
              [PStr ''limit'', PStr ''Limit'', PStr ''TRUE'', PNone, PStr ''abc'']]\<rparr>"

subsection \<open>An evaluator for quotient formulas\<close>

text \<open>
  A stand-in for \<open>eval\<close> in concrete examples. It covers formulas of the shape \<open>a / b\<close> with
  two variable names, which it evaluates as Python does: \<open>NameError\<close> when a name is not
  among the variables, otherwise true division. Every other formula is turned down.
\<close>

definition split_quotient :: "string \<Rightarrow> (string \<times> string) option" where
  "split_quotient s =
     (let a = takeWhile (\<lambda>c. c \<noteq> CHR '' '') s;
          rest = dropWhile (\<lambda>c. c \<noteq> CHR '' '') s;
          b = drop 3 rest
      in if take 3 rest = '' / '' \<and> a \<noteq> [] \<and> b \<noteq> [] \<and> CHR '' '' \<notin> set b
         then Some (a, b) else None)"

definition quotient_eval :: evaluator where
  "quotient_eval calc_expr variables =
     (case calc_expr of
        PStr s \<Rightarrow>
          (case split_quotient s of
             None \<Rightarrow> Inl SyntaxError
           | Some (a, b) \<Rightarrow>
               (case dict_get variables (PStr a) of
                  None \<Rightarrow> Inl NameError
                | Some x \<Rightarrow>
                    (case dict_get variables (PStr b) of
                       None \<Rightarrow> Inl NameError
                     | Some y \<Rightarrow> py_truediv x y)))
      | _ \<Rightarrow> Inl TypeError)"

text \<open>A row of the query service with no clicks.\<close>

definition sample_row :: raw_row where
  "sample_row =
     \<lparr>campaign_id = PInt 42,
      campaign_name = PStr ''Spring'',
      campaign_status_name = ''ENABLED'',
      advertising_channel_type_name = ''SEARCH'',
      metrics = map_of [(''impressions'', PInt 1200), (''clicks'', PInt 0),
                        (''cost_micros'', PInt 5000000), (''conversions'', PFloat 10),
                        (''ctr'', PFloat 0)]\<rparr>"

subsection \<open>A data sheet, a batch and a sheet service\<close>

text \<open>
  A data sheet with two rows, the second with its last cell empty; a batch of one record
  with the same columns; and a write that succeeds and reports the number of cells.
\<close>

definition count_cells :: "pyval list list \<Rightarrow> pyerr + nat" where
  "count_cells vals = Inr (sum_list (map length vals))"


definition sample_batch :: "pyval frame" where
  "sample_batch = \<lparr>columns = [PStr ''Name'', PStr ''Impressions''],
                    rows = [[PStr ''Autumn'', PInt 700]]\<rparr>"


section \<open>Properties\<close>

subsection \<open>Auxiliary facts\<close>

lemma is_active_iff:
  "is_active v \<longleftrightarrow> v \<in> {PBool True, PInt 1, PFloat 1, PStr ''TRUE'', PStr ''True''}"
  by (cases v) (auto simp: is_active_def series_eq_def py_eq_def isna_def)

lemma lower_active: "lower ''active'' = ''active''"
  by (simp add: lower_def lower_char_def)

lemma lower_calc: "lower ''calc'' = ''calc''"
  by (simp add: lower_def lower_char_def)

lemma find_in_filter: "find P xs = Some y \<Longrightarrow> y \<in> set (filter P xs)"
  by (induction xs) (auto split: if_splits)

lemma find_None_filter: "find P xs = None \<longleftrightarrow> filter P xs = []"
  by (induction xs) auto

lemma find_rev_unique:
  assumes "length (filter P xs) \<le> 1"
  shows "find P (rev xs) = find P xs"
proof (cases "filter P xs")
  case Nil
  then have "filter P (rev xs) = []" by (simp add: filter_empty_conv)
  with Nil have "find P xs = None" "find P (rev xs) = None"
    by (simp_all add: find_None_filter)
  then show ?thesis by simp
next
  case (Cons c cs)
  with assms have fs: "filter P xs = [c]" by simp
  then have fr: "filter P (rev xs) = [c]" by (simp add: rev_filter [symmetric])
  obtain a where a: "find P xs = Some a"
    using fs by (cases "find P xs") (auto simp: find_None_filter)
  obtain b where b: "find P (rev xs) = Some b"
    using fr by (cases "find P (rev xs)") (auto simp: find_None_filter)
  from find_in_filter [OF a] fs have "a = c" by simp
  moreover from find_in_filter [OF b] fr have "b = c" by simp
  ultimately show ?thesis using a b by simp
qed

lemma dict_set_keys:
  "map fst (dict_set k v d) = (if k \<in> fst ` set d then map fst d else map fst d @ [k])"
  by (induction d) (force simp: image_iff)+

lemma dict_keys_dict_set: "set (dict_keys (dict_set k v d)) = insert k (set (dict_keys d))"
  by (auto simp: dict_keys_def dict_set_keys)

lemma dict_keys_fold:
  "set (dict_keys (fold (\<lambda>r. dict_set (f r) (g r)) xs d)) = set (dict_keys d) \<union> f ` set xs"
  by (induction xs arbitrary: d) (auto simp: dict_keys_dict_set)

lemma map_of_dict_set: "map_of (dict_set k v d) k' = (if k' = k then Some v else map_of d k')"
  by (induction d) auto

lemmas eval_simps = sample_config_def get_active_metrics_list_def get_calculated_metrics_def Let_def
  lower_def lower_char_def column_cell_def cell_at_def is_active_iff isin_def excluded_fields_def
  is_blank_def isna_def

lemma sample_list: "get_active_metrics_list sample_config =
    Inr [PStr ''impressions'', PStr ''clicks'', PStr ''cost_micros'', PStr ''conversions'']"
  by (simp add: eval_simps)

lemma sample_calc: "get_calculated_metrics sample_config =
    Inr [(PStr ''conversion_rate'', PStr ''CVR'', PStr ''conversions / clicks''),
         (PStr ''cost_per_click'', PStr ''CPC'', PStr ''cost_micros / clicks'')]"
  by (simp add: eval_simps)

subsection \<open>The active flag\<close>

text \<open>
  C6 (as amended). The active flag of a row counts as true exactly when its cell equals the
  boolean \<open>True\<close> (which the numbers 1 and 1.0 also do) or is the text \<open>TRUE\<close> or \<open>True\<close>,
  spelled exactly so. Every other cell, the text \<open>true\<close> included, counts as false, and no
  value of the cell makes a reader of the flag raise: when the columns exist,
  \<open>get_active_metrics\<close> returns the names of exactly the rows with such a cell that are not
  parameter rows, and \<open>get_active_metrics_list\<close> returns the names of exactly the rows with
  such a cell that are neither parameter rows nor rows with a formula, both in the order of
  the sheet.
\<close>

theorem active_flag_exact:
  assumes "index_of ''active'' (columns df) = Some a"
    and "index_of ''metrics'' (columns df) = Some m"
    and "find (\<lambda>c. lower c = ''active'') (columns df) = Some lab"
  shows "(is_active v \<longleftrightarrow> v \<in> {PBool True, PInt 1, PFloat 1, PStr ''TRUE'', PStr ''True''})
       \<and> get_active_metrics df =
           Inr (map (cell_at m)
                  (filter (\<lambda>r. cell_at a r \<in> {PBool True, PInt 1, PFloat 1, PStr ''TRUE'', PStr ''True''}
                                \<and> \<not> isin (cell_at m r) excluded_fields) (rows df)))
       \<and> get_active_metrics_list df =
           Inr (map (cell_at m)
                  (filter (\<lambda>r. column_cell (columns df) lab r
                                    \<in> {PBool True, PInt 1, PFloat 1, PStr ''TRUE'', PStr ''True''}
                                \<and> \<not> isin (cell_at m r) excluded_fields
                                \<and> (case find (\<lambda>c. lower c = ''calc'') (columns df) of
                                      None \<Rightarrow> True
                                    | Some c \<Rightarrow> is_blank (column_cell (columns df) c r)))
                     (rows df)))"
proof (intro conjI)
  show "is_active v \<longleftrightarrow> v \<in> {PBool True, PInt 1, PFloat 1, PStr ''TRUE'', PStr ''True''}"
    by (rule is_active_iff)
next
  have "filter (\<lambda>r. \<not> isin (cell_at m r) excluded_fields) (filter (\<lambda>r. is_active (cell_at a r)) (rows df))
      = filter (\<lambda>r. cell_at a r \<in> {PBool True, PInt 1, PFloat 1, PStr ''TRUE'', PStr ''True''}
                                \<and> \<not> isin (cell_at m r) excluded_fields) (rows df)"
    by (simp add: is_active_iff conj_commute)
  with assms(1,2) show "get_active_metrics df =
           Inr (map (cell_at m)
                  (filter (\<lambda>r. cell_at a r \<in> {PBool True, PInt 1, PFloat 1, PStr ''TRUE'', PStr ''True''}
                                \<and> \<not> isin (cell_at m r) excluded_fields) (rows df)))"
    by (simp add: get_active_metrics_def)
next
  show "get_active_metrics_list df =
           Inr (map (cell_at m)
                  (filter (\<lambda>r. column_cell (columns df) lab r
                                    \<in> {PBool True, PInt 1, PFloat 1, PStr ''TRUE'', PStr ''True''}
                                \<and> \<not> isin (cell_at m r) excluded_fields
                                \<and> (case find (\<lambda>c. lower c = ''calc'') (columns df) of
                                      None \<Rightarrow> True
                                    | Some c \<Rightarrow> is_blank (column_cell (columns df) c r)))
                     (rows df)))"
    using assms(2,3)
    by (cases "find (\<lambda>c. lower c = ''calc'') (columns df)")
      (simp_all add: get_active_metrics_list_def Let_def is_active_iff conj_commute conj_left_commute)
qed

theorem active_flag_exact_witness:
  "index_of ''active'' (columns sample_config) = Some 2
   \<and> index_of ''metrics'' (columns sample_config) = Some 0
   \<and> find (\<lambda>c. lower c = ''active'') (columns sample_config) = Some ''active''
   \<and> \<not> is_active (PStr ''FALSE'')
   \<and> get_active_metrics sample_config =
       Inr [PStr ''impressions'', PStr ''clicks'', PStr ''cost_micros'', PStr ''conversions'',
            PStr ''conversion_rate'', PStr ''cost_per_click'']
   \<and> get_active_metrics_list sample_config =
       Inr [PStr ''impressions'', PStr ''clicks'', PStr ''cost_micros'', PStr ''conversions'']"
proof -
  have a: "index_of ''active'' (columns sample_config) = Some 2"
    by (simp add: sample_config_def)
  have m: "index_of ''metrics'' (columns sample_config) = Some 0"
    by (simp add: sample_config_def)
  have l: "find (\<lambda>c. lower c = ''active'') (columns sample_config) = Some ''active''"
    by (simp add: sample_config_def lower_def lower_char_def)
  have c: "find (\<lambda>c. lower c = ''calc'') (columns sample_config) = Some ''calc''"
    by (simp add: sample_config_def lower_def lower_char_def)
  from active_flag_exact [OF a m l, of "PStr ''FALSE''"]
  have f: "\<not> is_active (PStr ''FALSE'')"
    and g: "get_active_metrics sample_config =
           Inr (map (cell_at 0)
                  (filter (\<lambda>r. cell_at 2 r \<in> {PBool True, PInt 1, PFloat 1, PStr ''TRUE'', PStr ''True''}
                                \<and> \<not> isin (cell_at 0 r) excluded_fields) (rows sample_config)))"
    and h: "get_active_metrics_list sample_config =
           Inr (map (cell_at 0)
                  (filter (\<lambda>r. column_cell (columns sample_config) ''active'' r
                                    \<in> {PBool True, PInt 1, PFloat 1, PStr ''TRUE'', PStr ''True''}
                                \<and> \<not> isin (cell_at 0 r) excluded_fields
                                \<and> (case find (\<lambda>c. lower c = ''calc'') (columns sample_config) of
                                      None \<Rightarrow> True
                                    | Some c \<Rightarrow> is_blank (column_cell (columns sample_config) c r)))
                     (rows sample_config)))"
    by simp_all
  from g have g': "get_active_metrics sample_config =
       Inr [PStr ''impressions'', PStr ''clicks'', PStr ''cost_micros'', PStr ''conversions'',
            PStr ''conversion_rate'', PStr ''cost_per_click'']"
    by (simp add: sample_config_def cell_at_def isin_def excluded_fields_def)
  from h have h': "get_active_metrics_list sample_config =
       Inr [PStr ''impressions'', PStr ''clicks'', PStr ''cost_micros'', PStr ''conversions'']"
    unfolding c
    by (simp add: sample_config_def cell_at_def column_cell_def isin_def excluded_fields_def
        is_blank_def isna_def)
  from a m l f g' h' show ?thesis by blast
qed

text \<open>
  C6 as stated fails: the lower-case text \<open>true\<close> is not accepted, so a row flagged \<open>true\<close>
  is left out of the fields to request.
\<close>

theorem active_flag_lowercase_counterexample:
  "\<not> is_active (PStr ''true'')
   \<and> get_active_metrics_list
        \<lparr>columns = [''metrics'', ''active''], rows = [[PStr ''clicks'', PStr ''true'']]\<rparr> = Inr []"
  by (simp add: get_active_metrics_list_def lower_def lower_char_def column_cell_def cell_at_def
      is_active_iff)

subsection \<open>The two views of the resolver\<close>

text \<open>
  C7. Take a configuration whose metric keys are unique and which has at most one formula
  column (a column whose label reads \<open>calc\<close> in some letter case), as the data model of
  metric definitions has it. Then the requested fields hold no reserved parameter key, no
  row whose key is requested has a non-empty formula, every row whose key is a derived
  metric has a non-empty formula, and the requested fields and the derived metrics have no
  key in common.
\<close>

theorem resolver_views_disjoint:
  assumes L: "get_active_metrics_list df = Inr req"
    and C: "get_calculated_metrics df = Inr calc"
    and M: "index_of ''metrics'' (columns df) = Some m"
    and U: "distinct (map (cell_at m) (rows df))"
    and S: "length (filter (\<lambda>c. lower c = ''calc'') (columns df)) \<le> 1"
  shows "(\<forall>k\<in>set req. \<not> isin k excluded_fields)
       \<and> (\<forall>r\<in>set (rows df). cell_at m r \<in> set req \<longrightarrow>
             (\<forall>c\<in>set (columns df). lower c = ''calc'' \<longrightarrow> is_blank (column_cell (columns df) c r)))
       \<and> (\<forall>r\<in>set (rows df). cell_at m r \<in> set (dict_keys calc) \<longrightarrow>
             (\<exists>c\<in>set (columns df). lower c = ''calc'' \<and> \<not> is_blank (column_cell (columns df) c r)))
       \<and> set req \<inter> set (dict_keys calc) = {}"
proof -
  let ?P = "\<lambda>c. lower c = ''calc''"
  let ?cols = "columns df"
  have inj: "inj_on (cell_at m) (set (rows df))"
    using U by (simp add: distinct_map)
  have same: "find ?P (rev ?cols) = find ?P ?cols"
    by (rule find_rev_unique [OF S])
  show ?thesis
  proof (cases "find ?P ?cols")
    case None
    then have nocalc: "\<And>c. c \<in> set ?cols \<Longrightarrow> lower c \<noteq> ''calc''"
      by (auto simp: find_None_iff)
    from None same C have "calc = []"
      by (simp add: get_calculated_metrics_def Let_def)
    moreover from None L M have "\<forall>k\<in>set req. \<not> isin k excluded_fields"
      by (auto simp: get_active_metrics_list_def Let_def split: option.splits)
    ultimately show ?thesis using nocalc by (auto simp: dict_keys_def)
  next
    case (Some c)
    from find_in_filter [OF Some] S have fc: "filter ?P ?cols = [c]"
      by (cases "filter ?P ?cols") auto
    have only: "\<And>c'. c' \<in> set ?cols \<Longrightarrow> lower c' = ''calc'' \<Longrightarrow> c' = c"
    proof -
      fix c' assume "c' \<in> set ?cols" "lower c' = ''calc''"
      then have "c' \<in> set (filter ?P ?cols)" by simp
      with fc show "c' = c" by simp
    qed
    have cin: "c \<in> set ?cols" "lower c = ''calc''"
    proof -
      from fc have "c \<in> set (filter ?P ?cols)" by simp
      then show "c \<in> set ?cols" "lower c = ''calc''" by simp_all
    qed
    have F: "\<And>k. k \<in> set req \<Longrightarrow>
          \<not> isin k excluded_fields \<and> (\<exists>r\<in>set (rows df). cell_at m r = k \<and> is_blank (column_cell ?cols c r))"
      using L M Some
      by (auto simp: get_active_metrics_list_def Let_def split: option.splits)
    have K: "\<And>k. k \<in> set (dict_keys calc) \<Longrightarrow>
          \<exists>r\<in>set (rows df). cell_at m r = k \<and> \<not> is_blank (column_cell ?cols c r)"
    proof -
      fix k assume k: "k \<in> set (dict_keys calc)"
      then have ne: "calc \<noteq> []" by (auto simp: dict_keys_def)
      from C M Some same ne obtain n where
        calc: "calc = fold (\<lambda>r. dict_set (cell_at m r) (cell_at n r, column_cell ?cols c r))
                       (filter (\<lambda>r. (case find (\<lambda>c. lower c = ''active'') (rev ?cols) of
                                         None \<Rightarrow> True
                                       | Some a \<Rightarrow> is_active (column_cell ?cols a r))
                                     \<and> \<not> is_blank (column_cell ?cols c r)) (rows df)) []"
        by (cases "index_of ''name'' ?cols")
          (auto simp: get_calculated_metrics_def Let_def split: if_splits)
      from k show "\<exists>r\<in>set (rows df). cell_at m r = k \<and> \<not> is_blank (column_cell ?cols c r)"
        unfolding calc dict_keys_fold by (auto simp: dict_keys_def)
    qed
    have 1: "\<forall>k\<in>set req. \<not> isin k excluded_fields" using F by blast
    have 2: "\<forall>r\<in>set (rows df). cell_at m r \<in> set req \<longrightarrow>
             (\<forall>c\<in>set ?cols. lower c = ''calc'' \<longrightarrow> is_blank (column_cell ?cols c r))"
    proof (intro ballI impI)
      fix r c' assume r: "r \<in> set (rows df)" "cell_at m r \<in> set req"
        and c': "c' \<in> set ?cols" "lower c' = ''calc''"
      from F [OF r(2)] obtain r' where r': "r' \<in> set (rows df)" "cell_at m r' = cell_at m r"
        "is_blank (column_cell ?cols c r')" by blast
      from inj r(1) r'(1,2) have "r' = r" by (auto dest: inj_onD)
      with r'(3) only [OF c'] show "is_blank (column_cell ?cols c' r)" by simp
    qed
    have 3: "\<forall>r\<in>set (rows df). cell_at m r \<in> set (dict_keys calc) \<longrightarrow>
             (\<exists>c\<in>set ?cols. lower c = ''calc'' \<and> \<not> is_blank (column_cell ?cols c r))"
    proof (intro ballI impI)
      fix r assume r: "r \<in> set (rows df)" "cell_at m r \<in> set (dict_keys calc)"
      from K [OF r(2)] obtain r' where r': "r' \<in> set (rows df)" "cell_at m r' = cell_at m r"
        "\<not> is_blank (column_cell ?cols c r')" by blast
      from inj r(1) r'(1,2) have "r' = r" by (auto dest: inj_onD)
      with r'(3) cin show "\<exists>c\<in>set ?cols. lower c = ''calc'' \<and> \<not> is_blank (column_cell ?cols c r)"
        by blast
    qed
    have 4: "set req \<inter> set (dict_keys calc) = {}"
    proof (rule ccontr)
      assume "set req \<inter> set (dict_keys calc) \<noteq> {}"
      then obtain k where k: "k \<in> set req" "k \<in> set (dict_keys calc)" by blast
      from F [OF k(1)] obtain r1 where r1: "r1 \<in> set (rows df)" "cell_at m r1 = k"
        "is_blank (column_cell ?cols c r1)" by blast
      from K [OF k(2)] obtain r2 where r2: "r2 \<in> set (rows df)" "cell_at m r2 = k"
        "\<not> is_blank (column_cell ?cols c r2)" by blast
      from inj r1(1,2) r2(1,2) have "r1 = r2" by (auto dest: inj_onD)
      with r1(3) r2(3) show False by simp
    qed
    from 1 2 3 4 show ?thesis by blast
  qed
qed



theorem resolver_views_disjoint_witness:
  "get_active_metrics_list sample_config =
      Inr [PStr ''impressions'', PStr ''clicks'', PStr ''cost_micros'', PStr ''conversions'']
   \<and> get_calculated_metrics sample_config =
      Inr [(PStr ''conversion_rate'', PStr ''CVR'', PStr ''conversions / clicks''),
           (PStr ''cost_per_click'', PStr ''CPC'', PStr ''cost_micros / clicks'')]
   \<and> index_of ''metrics'' (columns sample_config) = Some 0
   \<and> distinct (map (cell_at 0) (rows sample_config))
   \<and> length (filter (\<lambda>c. lower c = ''calc'') (columns sample_config)) \<le> 1
   \<and> set [PStr ''impressions'', PStr ''clicks'', PStr ''cost_micros'', PStr ''conversions'']
       \<inter> set (dict_keys [(PStr ''conversion_rate'', PStr ''CVR'', PStr ''conversions / clicks''),
                           (PStr ''cost_per_click'', PStr ''CPC'', PStr ''cost_micros / clicks'')]) = {}"
proof -
  have M: "index_of ''metrics'' (columns sample_config) = Some 0"
    by (simp add: sample_config_def)
  have U: "distinct (map (cell_at 0) (rows sample_config))"
    by (simp add: sample_config_def cell_at_def)
  have S: "length (filter (\<lambda>c. lower c = ''calc'') (columns sample_config)) \<le> 1"
    by (simp add: sample_config_def lower_def lower_char_def)
  from resolver_views_disjoint [OF sample_list sample_calc M U S]
  have "set [PStr ''impressions'', PStr ''clicks'', PStr ''cost_micros'', PStr ''conversions'']
       \<inter> set (dict_keys [(PStr ''conversion_rate'', PStr ''CVR'', PStr ''conversions / clicks''),
                           (PStr ''cost_per_click'', PStr ''CPC'', PStr ''cost_micros / clicks'')]) = {}"
    by blast
  with sample_list sample_calc M U S show ?thesis by blast
qed


subsection \<open>A configuration without an active column\<close>

text \<open>
  C10. When no column label reads \<open>active\<close> in any letter case, every row counts as active:
  the requested fields are the keys of all rows that are neither reserved parameter rows nor
  rows with a non-empty formula, in the order of the sheet, and the derived metrics are the
  keys of exactly the rows with a non-empty formula.
\<close>

theorem no_active_column_all_active:
  assumes N: "\<forall>c\<in>set (columns df). lower c \<noteq> ''active''"
    and M: "index_of ''metrics'' (columns df) = Some m"
    and Nm: "index_of ''name'' (columns df) = Some n"
  shows "get_active_metrics_list df =
           Inr (map (cell_at m)
                  (filter (\<lambda>r. \<not> isin (cell_at m r) excluded_fields
                                \<and> (case find (\<lambda>c. lower c = ''calc'') (columns df) of
                                      None \<Rightarrow> True
                                    | Some c \<Rightarrow> is_blank (column_cell (columns df) c r)))
                     (rows df)))
       \<and> (\<exists>calc. get_calculated_metrics df = Inr calc
             \<and> set (dict_keys calc) =
                 {cell_at m r | r. r \<in> set (rows df)
                    \<and> (\<exists>c. find (\<lambda>c. lower c = ''calc'') (rev (columns df)) = Some c
                           \<and> \<not> is_blank (column_cell (columns df) c r))})"
proof
  from N have A: "find (\<lambda>c. lower c = ''active'') (columns df) = None"
    by (auto simp: find_None_iff)
  show "get_active_metrics_list df =
           Inr (map (cell_at m)
                  (filter (\<lambda>r. \<not> isin (cell_at m r) excluded_fields
                                \<and> (case find (\<lambda>c. lower c = ''calc'') (columns df) of
                                      None \<Rightarrow> True
                                    | Some c \<Rightarrow> is_blank (column_cell (columns df) c r)))
                     (rows df)))"
    using A M
    by (cases "find (\<lambda>c. lower c = ''calc'') (columns df)")
      (simp_all add: get_active_metrics_list_def Let_def)
next
  from N have A: "find (\<lambda>c. lower c = ''active'') (rev (columns df)) = None"
    by (auto simp: find_None_iff)
  show "\<exists>calc. get_calculated_metrics df = Inr calc
             \<and> set (dict_keys calc) =
                 {cell_at m r | r. r \<in> set (rows df)
                    \<and> (\<exists>c. find (\<lambda>c. lower c = ''calc'') (rev (columns df)) = Some c
                           \<and> \<not> is_blank (column_cell (columns df) c r))}"
  proof (cases "find (\<lambda>c. lower c = ''calc'') (rev (columns df))")
    case None
    then show ?thesis
      by (simp add: get_calculated_metrics_def Let_def dict_keys_def)
  next
    case (Some c)
    let ?rs = "filter (\<lambda>r. \<not> is_blank (column_cell (columns df) c r)) (rows df)"
    have "get_calculated_metrics df =
            Inr (fold (\<lambda>r. dict_set (cell_at m r) (cell_at n r, column_cell (columns df) c r)) ?rs [])"
      using A Some M Nm
      by (cases "?rs = []") (simp_all add: get_calculated_metrics_def Let_def)
    moreover have "set (dict_keys (fold (\<lambda>r. dict_set (cell_at m r) (cell_at n r, column_cell (columns df) c r)) ?rs []))
        = {cell_at m r | r. r \<in> set (rows df)
                    \<and> (\<exists>c. find (\<lambda>c. lower c = ''calc'') (rev (columns df)) = Some c
                           \<and> \<not> is_blank (column_cell (columns df) c r))}"
      unfolding dict_keys_fold using Some by (auto simp: dict_keys_def)
    ultimately show ?thesis by simp
  qed
qed

theorem no_active_column_all_active_witness:
  "find (\<lambda>c. lower c = ''active'') (columns sample_config_no_active) = None
   \<and> get_active_metrics_list sample_config_no_active = Inr [PStr ''clicks'', PStr ''ctr'']
   \<and> (\<exists>calc. get_calculated_metrics sample_config_no_active = Inr calc
          \<and> set (dict_keys calc) = {PStr ''conversion_rate''})"
proof -
  let ?df = sample_config_no_active
  have N: "\<forall>c\<in>set (columns ?df). lower c \<noteq> ''active''"
    by (simp add: sample_config_no_active_def lower_def lower_char_def)
  have M: "index_of ''metrics'' (columns ?df) = Some 0"
    by (simp add: sample_config_no_active_def)
  have Nm: "index_of ''name'' (columns ?df) = Some 1"
    by (simp add: sample_config_no_active_def)
  have L: "get_active_metrics_list ?df = Inr [PStr ''clicks'', PStr ''ctr'']"
    by (simp add: eval_simps sample_config_no_active_def)
  have C: "get_calculated_metrics ?df =
      Inr [(PStr ''conversion_rate'', PStr ''CVR'', PStr ''conversions / clicks'')]"
    by (simp add: eval_simps sample_config_no_active_def)
  from no_active_column_all_active [OF N M Nm]
  obtain calc where "get_calculated_metrics ?df = Inr calc" by blast
  with C have "calc = [(PStr ''conversion_rate'', PStr ''CVR'', PStr ''conversions / clicks'')]"
    by simp
  moreover from N have "find (\<lambda>c. lower c = ''active'') (columns ?df) = None"
    by (simp add: find_None_iff)
  ultimately show ?thesis using C L by (simp add: dict_keys_def)
qed

subsection \<open>Integer parameters that do not parse\<close>

lemma series_eq_PStr: "series_eq c (PStr s) \<longleftrightarrow> c = PStr s"
  by (cases c) (auto simp: series_eq_def py_eq_def isna_def)

lemmas int_simps = parse_int_def parse_ascii_int_def to_ascii_def c_isspace_def digit_val_def
  max_str_digits_def

text \<open>
  Some values of \<open>int\<close>: text that is no literal, a literal with sign, underscore and
  blanks, two full-width digits, a control character that is no whitespace for \<open>int\<close>,
  and a no-break space before a digit.
\<close>

lemma py_int_examples:
  "py_int (PStr ''abc'') = Inl ValueError"
  "py_int (PStr '' +1_000 '') = Inr 1000"
  "py_int (PStr [CHR 0xEF, CHR 0xBC, CHR 0x93, CHR 0xEF, CHR 0xBC, CHR 0x90]) = Inr 30"
  "py_int (PStr [CHR 0x1C, CHR ''5'']) = Inl ValueError"
  "py_int (PStr [CHR 0xC2, CHR 0xA0, CHR ''5'']) = Inr 5"
  "py_int (PStr ''1__0'') = Inl ValueError"
  by (simp_all add: int_simps unicode_decimal_def decimal_starts_def unicode_spaces_def)

text \<open>
  The getters of the live query fall back to the default when \<open>int\<close> raises \<open>ValueError\<close>,
  and let the \<open>TypeError\<close> of an empty parameter cell escape.
\<close>

lemma get_limit_fallback:
  assumes "index_of ''metrics'' (columns df) = Some m"
    and "filter (\<lambda>r. series_eq (cell_at m r) (PStr ''limit'')) (rows df) = r # rs"
    and "index_of ''parameter'' (columns df) = Some p"
    and "py_int (cell_at p r) = Inl ValueError"
  shows "get_limit df = Inr 100"
  using assms by (simp add: get_limit_def)

lemma get_period_days_fallback:
  assumes "index_of ''metrics'' (columns df) = Some m"
    and "filter (\<lambda>r. series_eq (cell_at m r) (PStr ''period_days'')) (rows df) = r # rs"
    and "index_of ''parameter'' (columns df) = Some p"
    and "py_int (cell_at p r) = Inl ValueError"
  shows "get_period_days df = Inr 30"
  using assms by (simp add: get_period_days_def)

lemma get_limit_type_error:
  assumes "index_of ''metrics'' (columns df) = Some m"
    and "filter (\<lambda>r. series_eq (cell_at m r) (PStr ''limit'')) (rows df) = r # rs"
    and "index_of ''parameter'' (columns df) = Some p"
    and "cell_at p r = PNone"
  shows "get_limit df = Inl TypeError"
  using assms by (simp add: get_limit_def)

text \<open>
  C2 (the code departs from it). With the row limit set to the text \<open>abc\<close> in an active
  row, \<open>get_query_parameters\<close> raises the \<open>ValueError\<close> of its unguarded \<open>int\<close>, where the
  claim promises the default 100. On the same table \<open>get_limit\<close> yields that default.
\<close>

theorem int_parameter_fallback_missing:
  "get_query_parameters sample_config_bad_limit = Inl ValueError
   \<and> get_limit sample_config_bad_limit = Inr 100
   \<and> get_period_days sample_config_bad_limit = Inr 7"
  by (simp add: get_query_parameters_def read_param_def set_default_def sample_config_bad_limit_def
      cell_at_def is_active_iff series_eq_PStr and_then_def isna_def int_simps dict_keys_def
      get_limit_def get_period_days_def)

subsection \<open>The query that is sent\<close>

lemma is_prefix_iff: "is_prefix xs ys \<longleftrightarrow> (\<exists>zs. ys = xs @ zs)"
  by (induction xs ys rule: is_prefix.induct) auto

lemma occurs_in_iff: "occurs_in xs ys \<longleftrightarrow> (\<exists>pre post. ys = pre @ xs @ post)"
proof (induction ys)
  case Nil
  then show ?case by auto
next
  case (Cons y ys)
  show ?case
  proof
    assume "occurs_in xs (y # ys)"
    then consider "is_prefix xs (y # ys)" | "occurs_in xs ys" by auto
    then show "\<exists>pre post. y # ys = pre @ xs @ post"
    proof cases
      case 1
      then obtain zs where "y # ys = xs @ zs" by (auto simp: is_prefix_iff)
      then have "y # ys = [] @ xs @ zs" by simp
      then show ?thesis by blast
    next
      case 2
      with Cons obtain pre post where "ys = pre @ xs @ post" by blast
      then have "y # ys = (y # pre) @ xs @ post" by simp
      then show ?thesis by blast
    qed
  next
    assume "\<exists>pre post. y # ys = pre @ xs @ post"
    then obtain pre post where e: "y # ys = pre @ xs @ post" by blast
    show "occurs_in xs (y # ys)"
    proof (cases pre)
      case Nil
      with e have "is_prefix xs (y # ys)" by (auto simp: is_prefix_iff)
      then show ?thesis by simp
    next
      case (Cons p ps)
      with e have "ys = ps @ xs @ post" by simp
      with Cons.IH have "occurs_in xs ys" by blast
      then show ?thesis by simp
    qed
  qed
qed

lemma is_prefix_same_append [simp]: "is_prefix (a @ b) (a @ c) = is_prefix b c"
  by (induction a) auto

lemma is_prefix_self [simp]: "is_prefix a (a @ c)"
  by (induction a) auto

lemma occurs_in_append2 [simp]: "occurs_in xs zs \<Longrightarrow> occurs_in xs (ys @ zs)"
  by (auto simp: occurs_in_iff) (metis append.assoc)

lemma occurs_in_prefix [simp]: "is_prefix xs ys \<Longrightarrow> occurs_in xs ys"
  by (cases ys) (auto elim: is_prefix.elims)


lemmas date_simps = strftime_ymd_def ord2ymd_def Let_def days_before_month_def days_in_month_def
  zero_pad_def digits_of.simps

lemmas config_simps = sample_config_def get_active_metrics_list_def get_calculated_metrics_def Let_def
  lower_def lower_char_def column_cell_def cell_at_def is_active_iff isin_def excluded_fields_def
  is_blank_def isna_def get_limit_def get_period_days_def series_eq_PStr int_simps

lemma campaign_query_parts:
  assumes "py_join '', '' (map get_field_mapping fs) = Inr ft"
  shows "\<exists>q. campaign_query fs s e n = Inr q
     \<and> occurs_in ''campaign.id, '' q
     \<and> occurs_in ''campaign.name, '' q
     \<and> occurs_in ''campaign.status, '' q
     \<and> occurs_in ''campaign.advertising_channel_type, '' q
     \<and> occurs_in ft q
     \<and> occurs_in (''campaign.status = '' @ [CHR 0x27] @ ''ENABLED'' @ [CHR 0x27]) q
     \<and> occurs_in (''segments.date >= '' @ [CHR 0x27] @ s @ [CHR 0x27]) q
     \<and> occurs_in (''segments.date <= '' @ [CHR 0x27] @ e @ [CHR 0x27]) q
     \<and> occurs_in (''LIMIT '' @ str_of_int n) q
     \<and> q = [CHR 0x0A]
          @ ''            SELECT '' @ [CHR 0x0A]
          @ ''                campaign.id, '' @ [CHR 0x0A]
          @ ''                campaign.name, '' @ [CHR 0x0A]
          @ ''                campaign.status, '' @ [CHR 0x0A]
          @ ''                campaign.advertising_channel_type, '' @ [CHR 0x0A]
          @ ''                '' @ ft @ [CHR 0x0A]
          @ ''            FROM campaign '' @ [CHR 0x0A]
          @ ''            WHERE '' @ [CHR 0x0A]
          @ ''                campaign.status = '' @ [CHR 0x27] @ ''ENABLED'' @ [CHR 0x27] @ '' '' @ [CHR 0x0A]
          @ ''                AND segments.date >= '' @ [CHR 0x27] @ s @ [CHR 0x27] @ '' '' @ [CHR 0x0A]
          @ ''                AND segments.date <= '' @ [CHR 0x27] @ e @ [CHR 0x27] @ [CHR 0x0A]
          @ ''            LIMIT '' @ str_of_int n @ [CHR 0x0A]
          @ ''            ''"
  using assms by (simp add: campaign_query_def and_then_def)

lemma sample_period: "get_period_days sample_config = Inr 7"
  by (simp add: config_simps)

lemma sample_limit: "get_limit sample_config = Inr 50"
  by (simp add: config_simps)

lemma sample_status: "get_query_parameters sample_config =
    Inr [(PStr ''campaign_status'', PStr ''PAUSED''), (PStr ''period_days'', PInt 7), (PStr ''limit'', PInt 50)]"
  by (simp add: get_query_parameters_def read_param_def set_default_def sample_config_def cell_at_def
      is_active_iff series_eq_PStr and_then_def isna_def int_simps dict_keys_def)

lemma sample_dates: "strftime_ymd 739917 = ''2026-10-28''" "strftime_ymd 739924 = ''2026-11-04''"
  by (simp_all add: date_simps)

lemma sample_join: "py_join '', '' (map get_field_mapping
      [PStr ''impressions'', PStr ''clicks'', PStr ''cost_micros'', PStr ''conversions''])
    = Inr ''metrics.impressions, metrics.clicks, metrics.cost_micros, metrics.conversions''"
  by (simp add: py_join_def get_field_mapping_def field_mapping_def)


text \<open>
  The query of the live mode. When the configuration and the dates are read without an
  exception and every requested field is text, \<open>get_campaign_metrics\<close> builds one query
  and its result depends on the query service only through the answer to that query. The
  query selects the four campaign dimensions and the mapped requested fields, filters on
  the fixed status \<open>ENABLED\<close>, bounds \<open>segments.date\<close> from below by the day
  \<open>today - period_days\<close> and from above by today, both inclusive and printed as
  year-month-day, and ends with the row limit. The last conjunct gives the whole text of
  the query: it has no other condition and no ordering.
\<close>

theorem live_query_contents:
  assumes L: "get_active_metrics_list df = Inr fs"
    and C: "get_calculated_metrics df = Inr calc"
    and D: "get_period_days df = Inr d"
    and S: "date_minus_days today d = Inr start"
    and N: "get_limit df = Inr n"
    and J: "py_join '', '' (map get_field_mapping fs) = Inr fields_text"
  shows "\<exists>q. campaign_query fs (strftime_ymd start) (strftime_ymd today) n = Inr q
     \<and> (\<forall>search search'. search cid q = search' cid q \<longrightarrow>
            get_campaign_metrics ev search df today cid = get_campaign_metrics ev search' df today cid)
     \<and> start = today - d
     \<and> occurs_in ''campaign.id, '' q
     \<and> occurs_in ''campaign.name, '' q
     \<and> occurs_in ''campaign.status, '' q
     \<and> occurs_in ''campaign.advertising_channel_type, '' q
     \<and> occurs_in fields_text q
     \<and> occurs_in (''campaign.status = '' @ [CHR 0x27] @ ''ENABLED'' @ [CHR 0x27]) q
     \<and> occurs_in (''segments.date >= '' @ [CHR 0x27] @ strftime_ymd (today - d) @ [CHR 0x27]) q
     \<and> occurs_in (''segments.date <= '' @ [CHR 0x27] @ strftime_ymd today @ [CHR 0x27]) q
     \<and> occurs_in (''LIMIT '' @ str_of_int n) q
     \<and> q = [CHR 0x0A]
          @ ''            SELECT '' @ [CHR 0x0A]
          @ ''                campaign.id, '' @ [CHR 0x0A]
          @ ''                campaign.name, '' @ [CHR 0x0A]
          @ ''                campaign.status, '' @ [CHR 0x0A]
          @ ''                campaign.advertising_channel_type, '' @ [CHR 0x0A]
          @ ''                '' @ fields_text @ [CHR 0x0A]
          @ ''            FROM campaign '' @ [CHR 0x0A]
          @ ''            WHERE '' @ [CHR 0x0A]
          @ ''                campaign.status = '' @ [CHR 0x27] @ ''ENABLED'' @ [CHR 0x27] @ '' '' @ [CHR 0x0A]
          @ ''                AND segments.date >= '' @ [CHR 0x27] @ strftime_ymd (today - d) @ [CHR 0x27] @ '' '' @ [CHR 0x0A]
          @ ''                AND segments.date <= '' @ [CHR 0x27] @ strftime_ymd today @ [CHR 0x27] @ [CHR 0x0A]
          @ ''            LIMIT '' @ str_of_int n @ [CHR 0x0A]
          @ ''            ''"
proof -
  from S have st: "start = today - d"
    by (auto simp: date_minus_days_def split: if_splits)
  from campaign_query_parts [OF J, of "strftime_ymd start" "strftime_ymd today" n]
  obtain q where q: "campaign_query fs (strftime_ymd start) (strftime_ymd today) n = Inr q"
    and parts: "occurs_in ''campaign.id, '' q
     \<and> occurs_in ''campaign.name, '' q
     \<and> occurs_in ''campaign.status, '' q
     \<and> occurs_in ''campaign.advertising_channel_type, '' q
     \<and> occurs_in fields_text q
     \<and> occurs_in (''campaign.status = '' @ [CHR 0x27] @ ''ENABLED'' @ [CHR 0x27]) q
     \<and> occurs_in (''segments.date >= '' @ [CHR 0x27] @ strftime_ymd start @ [CHR 0x27]) q
     \<and> occurs_in (''segments.date <= '' @ [CHR 0x27] @ strftime_ymd today @ [CHR 0x27]) q
     \<and> occurs_in (''LIMIT '' @ str_of_int n) q
     \<and> q = [CHR 0x0A]
          @ ''            SELECT '' @ [CHR 0x0A]
          @ ''                campaign.id, '' @ [CHR 0x0A]
          @ ''                campaign.name, '' @ [CHR 0x0A]
          @ ''                campaign.status, '' @ [CHR 0x0A]
          @ ''                campaign.advertising_channel_type, '' @ [CHR 0x0A]
          @ ''                '' @ fields_text @ [CHR 0x0A]
          @ ''            FROM campaign '' @ [CHR 0x0A]
          @ ''            WHERE '' @ [CHR 0x0A]
          @ ''                campaign.status = '' @ [CHR 0x27] @ ''ENABLED'' @ [CHR 0x27] @ '' '' @ [CHR 0x0A]
          @ ''                AND segments.date >= '' @ [CHR 0x27] @ strftime_ymd start @ [CHR 0x27] @ '' '' @ [CHR 0x0A]
          @ ''                AND segments.date <= '' @ [CHR 0x27] @ strftime_ymd today @ [CHR 0x27] @ [CHR 0x0A]
          @ ''            LIMIT '' @ str_of_int n @ [CHR 0x0A]
          @ ''            ''"
    by blast
  have same: "\<forall>search search'. search cid q = search' cid q \<longrightarrow>
            get_campaign_metrics ev search df today cid = get_campaign_metrics ev search' df today cid"
    using L C D S N q by (simp add: get_campaign_metrics_def and_then_def)
  from q same parts show ?thesis unfolding st by blast
qed

theorem live_query_contents_witness:
  "get_active_metrics_list sample_config =
      Inr [PStr ''impressions'', PStr ''clicks'', PStr ''cost_micros'', PStr ''conversions'']
   \<and> get_period_days sample_config = Inr 7
   \<and> get_limit sample_config = Inr 50
   \<and> date_minus_days 739924 7 = Inr 739917
   \<and> (\<exists>q. campaign_query [PStr ''impressions'', PStr ''clicks'', PStr ''cost_micros'', PStr ''conversions'']
              ''2026-10-28'' ''2026-11-04'' 50 = Inr q
          \<and> occurs_in ''metrics.impressions, metrics.clicks, metrics.cost_micros, metrics.conversions'' q
          \<and> occurs_in (''segments.date >= '' @ [CHR 0x27] @ ''2026-10-28'' @ [CHR 0x27]) q
          \<and> occurs_in (''segments.date <= '' @ [CHR 0x27] @ ''2026-11-04'' @ [CHR 0x27]) q
          \<and> occurs_in ''LIMIT 50'' q)"
proof -
  have C: "get_calculated_metrics sample_config =
    Inr [(PStr ''conversion_rate'', PStr ''CVR'', PStr ''conversions / clicks''),
         (PStr ''cost_per_click'', PStr ''CPC'', PStr ''cost_micros / clicks'')]"
    by (simp add: config_simps)
  have S: "date_minus_days 739924 7 = Inr 739917"
    by (simp add: date_minus_days_def)
  have n: "str_of_int 50 = ''50''"
    by (simp add: str_of_int_def digits_of.simps)
  from live_query_contents [OF sample_list C sample_period S sample_limit sample_join]
  obtain q where "campaign_query [PStr ''impressions'', PStr ''clicks'', PStr ''cost_micros'', PStr ''conversions'']
              (strftime_ymd 739917) (strftime_ymd 739924) 50 = Inr q"
    and "occurs_in ''metrics.impressions, metrics.clicks, metrics.cost_micros, metrics.conversions'' q"
    and "occurs_in (''segments.date >= '' @ [CHR 0x27] @ strftime_ymd (739924 - 7) @ [CHR 0x27]) q"
    and "occurs_in (''segments.date <= '' @ [CHR 0x27] @ strftime_ymd 739924 @ [CHR 0x27]) q"
    and "occurs_in (''LIMIT '' @ str_of_int 50) q"
    by blast
  then have "\<exists>q. campaign_query [PStr ''impressions'', PStr ''clicks'', PStr ''cost_micros'', PStr ''conversions'']
              ''2026-10-28'' ''2026-11-04'' 50 = Inr q
          \<and> occurs_in ''metrics.impressions, metrics.clicks, metrics.cost_micros, metrics.conversions'' q
          \<and> occurs_in (''segments.date >= '' @ [CHR 0x27] @ ''2026-10-28'' @ [CHR 0x27]) q
          \<and> occurs_in (''segments.date <= '' @ [CHR 0x27] @ ''2026-11-04'' @ [CHR 0x27]) q
          \<and> occurs_in ''LIMIT 50'' q"
    using sample_dates n by simp
  with sample_list sample_period sample_limit S show ?thesis by blast
qed

text \<open>
  C1 (the code departs from it). The configuration sets the status filter to \<open>PAUSED\<close>, the
  window to 7 days and the limit to 50, and the day is 2026-11-04. The query that
  \<open>get_campaign_metrics\<close> sends does not mention the configured status (it filters on the
  fixed \<open>ENABLED\<close>), has no condition on impressions and no ordering, where the claim
  promises a filter on the configured status, the guard \<open>impressions > 0\<close> and the ordering
  by impressions.
\<close>

theorem live_query_ignores_configuration:
  "get_query_parameters sample_config =
      Inr [(PStr ''campaign_status'', PStr ''PAUSED''), (PStr ''period_days'', PInt 7), (PStr ''limit'', PInt 50)]
   \<and> get_active_metrics_list sample_config =
      Inr [PStr ''impressions'', PStr ''clicks'', PStr ''cost_micros'', PStr ''conversions'']
   \<and> get_period_days sample_config = Inr 7
   \<and> get_limit sample_config = Inr 50
   \<and> date_minus_days 739924 7 = Inr 739917
   \<and> (case campaign_query [PStr ''impressions'', PStr ''clicks'', PStr ''cost_micros'', PStr ''conversions'']
              (strftime_ymd 739917) (strftime_ymd 739924) 50 of
         Inl e \<Rightarrow> False
       | Inr q \<Rightarrow> \<not> occurs_in ''PAUSED'' q
                 \<and> \<not> occurs_in ''metrics.impressions > 0'' q
                 \<and> \<not> occurs_in ''ORDER BY'' q)"
proof -
  have "(case campaign_query [PStr ''impressions'', PStr ''clicks'', PStr ''cost_micros'', PStr ''conversions'']
              (strftime_ymd 739917) (strftime_ymd 739924) 50 of
         Inl e \<Rightarrow> False
       | Inr q \<Rightarrow> \<not> occurs_in ''PAUSED'' q
                 \<and> \<not> occurs_in ''metrics.impressions > 0'' q
                 \<and> \<not> occurs_in ''ORDER BY'' q)"
    by (simp add: campaign_query_def and_then_def py_join_def get_field_mapping_def field_mapping_def
        sample_dates str_of_int_def digits_of.simps)
  moreover have "date_minus_days 739924 7 = Inr 739917"
    by (simp add: date_minus_days_def)
  ultimately show ?thesis
    using sample_status sample_list sample_period sample_limit by blast
qed

subsection \<open>Facts about the loops of the record shaper\<close>

lemma dict_get_dict_set: "dict_get (dict_set k v d) k' = (if k' = k then Some v else dict_get d k')"
  by (simp add: dict_get_def map_of_dict_set)

lemma and_then_Inr_iff: "and_then x f = Inr y \<longleftrightarrow> (\<exists>a. x = Inr a \<and> f a = Inr y)"
  by (cases x) (auto simp: and_then_def)

lemma store_metric_Inr:
  assumes "store_metric df value_of metric st = Inr st'"
  obtains nm v where "metric_display_name df metric = Inr nm" "value_of metric = Inr v"
    "st' = (case v of None \<Rightarrow> st | Some value \<Rightarrow> (dict_set nm value (fst st), dict_set metric value (snd st)))"
  using assms by (auto simp: store_metric_def and_then_Inr_iff split: option.splits)

lemma fold_store_lookup:
  assumes "fold_err (store_metric df value_of) fs st = Inr st'"
    and "metric_display_name df metric = Inr nm"
    and "value_of metric = Inr (Some v)"
    and "\<forall>m'\<in>set fs. metric_display_name df m' = Inr nm \<longrightarrow> m' = metric"
  shows "dict_get (fst st') nm = (if metric \<in> set fs then Some v else dict_get (fst st) nm)"
  using assms
proof (induction fs arbitrary: st)
  case Nil
  then show ?case by simp
next
  case (Cons x xs)
  from Cons.prems(1) obtain st1 where s1: "store_metric df value_of x st = Inr st1"
    and rest: "fold_err (store_metric df value_of) xs st1 = Inr st'"
    by (auto simp: and_then_Inr_iff)
  from Cons.prems(4) have uniq: "\<forall>m'\<in>set xs. metric_display_name df m' = Inr nm \<longrightarrow> m' = metric"
    by simp
  have IH: "dict_get (fst st') nm = (if metric \<in> set xs then Some v else dict_get (fst st1) nm)"
    by (rule Cons.IH [OF rest Cons.prems(2,3) uniq])
  from s1 obtain nx vx where nx: "metric_display_name df x = Inr nx" and vx: "value_of x = Inr vx"
    and st1: "st1 = (case vx of None \<Rightarrow> st | Some value \<Rightarrow> (dict_set nx value (fst st), dict_set x value (snd st)))"
    by (rule store_metric_Inr)
  show ?case
  proof (cases "x = metric")
    case True
    with nx vx Cons.prems(2,3) st1 have "dict_get (fst st1) nm = Some v"
      by (auto simp: dict_get_dict_set)
    with IH True show ?thesis by simp
  next
    case False
    with Cons.prems(4) nx have "nx \<noteq> nm" by auto
    with st1 have "dict_get (fst st1) nm = dict_get (fst st) nm"
      by (cases vx) (simp_all add: dict_get_dict_set)
    with IH False show ?thesis by auto
  qed
qed

lemma add_calculated_metric_eq:
  "add_calculated_metric ev vars (metric, nm, expr) cd =
     dict_set nm (case calc_result ev metric expr vars of Inr result \<Rightarrow> result | Inl e \<Rightarrow> PNone) cd"
  by (simp add: add_calculated_metric_def split: sum.splits)

lemma fold_calc_lookup:
  "\<forall>e\<in>set calc. fst (snd e) \<noteq> nm \<Longrightarrow>
     dict_get (fold (add_calculated_metric ev vars) calc cd) nm = dict_get cd nm"
proof (induction calc arbitrary: cd)
  case Nil
  then show ?case by simp
next
  case (Cons e es)
  obtain metric n expr where e: "e = (metric, n, expr)" by (cases e) auto
  with Cons.prems have "n \<noteq> nm" by simp
  with Cons e show ?case by (simp add: add_calculated_metric_eq dict_get_dict_set)
qed

lemma fold_calc_keys:
  "set (dict_keys (fold (add_calculated_metric ev vars) calc cd))
     = set (dict_keys cd) \<union> (\<lambda>e. fst (snd e)) ` set calc"
proof (induction calc arbitrary: cd)
  case Nil
  then show ?case by simp
next
  case (Cons e es)
  obtain metric n expr where e: "e = (metric, n, expr)" by (cases e) auto
  with Cons show ?case by (auto simp: add_calculated_metric_eq dict_keys_dict_set)
qed

lemma map_err_total:
  "\<forall>x\<in>set xs. \<exists>y. f x = Inr y \<Longrightarrow>
     \<exists>ys. map_err f xs = Inr ys \<and> length ys = length xs \<and> (\<forall>k<length xs. f (xs ! k) = Inr (ys ! k))"
proof (induction xs)
  case Nil
  then show ?case by simp
next
  case (Cons x xs)
  then obtain y ys where y: "f x = Inr y" and ys: "map_err f xs = Inr ys" "length ys = length xs"
    "\<forall>k<length xs. f (xs ! k) = Inr (ys ! k)" by auto
  have "\<forall>k<length (x # xs). f ((x # xs) ! k) = Inr ((y # ys) ! k)"
  proof (intro allI impI)
    fix k assume "k < length (x # xs)"
    then show "f ((x # xs) ! k) = Inr ((y # ys) ! k)"
      using y ys(3) by (cases k) auto
  qed
  with y ys show ?case by (simp add: and_then_def)
qed

lemma map_err_Inr:
  "map_err f xs = Inr ys \<Longrightarrow> length ys = length xs \<and> (\<forall>k<length xs. f (xs ! k) = Inr (ys ! k))"
proof (induction xs arbitrary: ys)
  case Nil
  then show ?case by simp
next
  case (Cons x xs)
  from Cons.prems obtain y ys' where y: "f x = Inr y" and ys': "map_err f xs = Inr ys'"
    and e: "ys = y # ys'"
    by (auto simp: and_then_Inr_iff)
  from Cons.IH [OF ys'] have l: "length ys' = length xs" and n: "\<forall>k<length xs. f (xs ! k) = Inr (ys' ! k)"
    by auto
  have "\<forall>k<length (x # xs). f ((x # xs) ! k) = Inr (ys ! k)"
  proof (intro allI impI)
    fix k assume "k < length (x # xs)"
    then show "f ((x # xs) ! k) = Inr (ys ! k)"
      using y n e by (cases k) auto
  qed
  with l e show ?case by simp
qed


lemma py_gt0_zero: "num_of clk = Some 0 \<Longrightarrow> py_gt0 clk = Inr False"
  by (cases clk) (auto simp: py_gt0_def)

lemma shape_row_Inr:
  "fold_err (store_metric df (live_value row)) fs (campaign_base row, []) = Inr st \<Longrightarrow>
     shape_row ev df fs calc row = Inr (fold (add_calculated_metric ev (snd st)) calc (fst st))"
  by (simp add: shape_row_def and_then_def)

lemmas shape_simps = shape_row_def store_metric_def metric_display_name_def live_value_def
  sample_row_def sample_config_def cell_at_def series_eq_PStr and_then_def py_truediv_def
  is_number_def add_calculated_metric_def calc_result_def dict_get_def py_gt0_def
  quotient_eval_def split_quotient_def campaign_base_def
  key_campaign_id_def key_campaign_name_def key_status_def key_campaign_type_def

lemma sample_requested:
  "fold_err (store_metric sample_config (live_value sample_row))
      [PStr ''impressions'', PStr ''clicks'', PStr ''cost_micros'', PStr ''conversions'']
      (campaign_base sample_row, [])
   = Inr (campaign_base sample_row @
            [(PStr ''Impressions'', PInt 1200), (PStr ''Clicks'', PInt 0),
             (PStr ''Cost'', PFloat 5), (PStr ''Conversions'', PFloat 10)],
          [(PStr ''impressions'', PInt 1200), (PStr ''clicks'', PInt 0),
           (PStr ''cost_micros'', PFloat 5), (PStr ''conversions'', PFloat 10)])"
  by (simp add: shape_simps)

lemma sample_shaped:
  "shape_row quotient_eval sample_config
      [PStr ''impressions'', PStr ''clicks'', PStr ''cost_micros'', PStr ''conversions'']
      [(PStr ''conversion_rate'', PStr ''CVR'', PStr ''conversions / clicks''),
       (PStr ''cost_per_click'', PStr ''CPC'', PStr ''cost_micros / clicks'')] sample_row
   = Inr (campaign_base sample_row @
            [(PStr ''Impressions'', PInt 1200), (PStr ''Clicks'', PInt 0),
             (PStr ''Cost'', PFloat 5), (PStr ''Conversions'', PFloat 10),
             (PStr ''CVR'', PInt 0), (PStr ''CPC'', PNone)])"
  by (simp add: shape_simps)

lemma display_name_total:
  assumes "index_of ''metrics'' (columns df) = Some m" and "index_of ''name'' (columns df) = Some n"
  shows "\<exists>nm. metric_display_name df metric = Inr nm"
  using assms by (simp add: metric_display_name_def split: list.splits)

lemma fold_store_total:
  assumes "\<forall>x\<in>set fs. \<exists>nm v. metric_display_name df x = Inr nm \<and> value_of x = Inr v"
  shows "\<exists>st'. fold_err (store_metric df value_of) fs st = Inr st'"
  using assms
proof (induction fs arbitrary: st)
  case Nil
  then show ?case by simp
next
  case (Cons x xs)
  then obtain nm v where "metric_display_name df x = Inr nm" "value_of x = Inr v" by auto
  then obtain st1 where "store_metric df value_of x st = Inr st1"
    by (cases v) (auto simp: store_metric_def and_then_def)
  moreover from Cons obtain st' where "fold_err (store_metric df value_of) xs st1 = Inr st'"
    by fastforce
  ultimately show ?case by (simp add: and_then_def)
qed

lemma config_views_total:
  assumes "index_of ''metrics'' (columns df) = Some m" and "index_of ''name'' (columns df) = Some n"
  shows "\<exists>fs calc. get_active_metrics_list df = Inr fs \<and> get_calculated_metrics df = Inr calc"
  using assms
  by (auto simp: get_active_metrics_list_def get_calculated_metrics_def Let_def split: option.splits)

lemma dummy_campaign_total:
  assumes "index_of ''metrics'' (columns df) = Some m" and "index_of ''name'' (columns df) = Some n"
  shows "\<exists>rec. dummy_campaign ev df fs calc i = Inr rec"
proof -
  have "\<forall>x\<in>set fs. \<exists>nm v. metric_display_name df x = Inr nm
          \<and> (\<lambda>metric. Inr (Some (dummy_value i metric)) :: pyerr + pyval option) x = Inr v"
    using display_name_total [OF assms] by simp
  from fold_store_total [OF this]
  obtain st' where "fold_err (store_metric df (\<lambda>metric. Inr (Some (dummy_value i metric))))
                 fs (dummy_base i, []) = Inr st'" by blast
  then show ?thesis by (simp add: dummy_campaign_def and_then_def)
qed


subsection \<open>Faults of derived-metric formulas\<close>

text \<open>
  C3. In the loop over the derived metrics, the conversion rate of a record that has both
  conversions and clicks, with clicks equal to zero, is set to 0 without a division. Whenever
  the body of the loop raises (the evaluator or the special case, for any reason), the field
  is set to \<open>None\<close>. Formula faults never end the batch: for every evaluator, when the
  requested fields of every row of the response can be stored, the shaper returns one record
  per row, and every record has a field for every derived metric.
\<close>

theorem formula_faults_absorbed:
  assumes R: "\<forall>row\<in>set response.
                \<exists>st. fold_err (store_metric df (live_value row)) fs (campaign_base row, []) = Inr st"
  shows "(dict_get variables (PStr ''conversions'') = Some conv
            \<and> dict_get variables (PStr ''clicks'') = Some clk \<and> num_of clk = Some 0 \<longrightarrow>
          add_calculated_metric ev variables (PStr ''conversion_rate'', nm, expr) cd
            = dict_set nm (PInt 0) cd)
       \<and> (calc_result ev metric expr variables = Inl e \<longrightarrow>
            add_calculated_metric ev variables (metric, nm, expr) cd = dict_set nm PNone cd
            \<and> dict_get (add_calculated_metric ev variables (metric, nm, expr) cd) nm = Some PNone)
       \<and> (\<exists>recs. map_err (shape_row ev df fs calc) response = Inr recs
             \<and> length recs = length response
             \<and> (\<forall>rec\<in>set recs. \<forall>entry\<in>set calc. fst (snd entry) \<in> set (dict_keys rec)))"
proof (intro conjI impI)
  assume "dict_get variables (PStr ''conversions'') = Some conv
            \<and> dict_get variables (PStr ''clicks'') = Some clk \<and> num_of clk = Some 0"
  then show "add_calculated_metric ev variables (PStr ''conversion_rate'', nm, expr) cd
            = dict_set nm (PInt 0) cd"
    by (simp add: add_calculated_metric_eq calc_result_def py_gt0_zero and_then_def)
next
  assume "calc_result ev metric expr variables = Inl e"
  then show "add_calculated_metric ev variables (metric, nm, expr) cd = dict_set nm PNone cd"
    by (simp add: add_calculated_metric_eq)
next
  assume "calc_result ev metric expr variables = Inl e"
  then show "dict_get (add_calculated_metric ev variables (metric, nm, expr) cd) nm = Some PNone"
    by (simp add: add_calculated_metric_eq dict_get_dict_set)
next
  have "\<forall>row\<in>set response. \<exists>rec. shape_row ev df fs calc row = Inr rec"
    using R shape_row_Inr by blast
  from map_err_total [OF this]
  obtain recs where recs: "map_err (shape_row ev df fs calc) response = Inr recs"
    and len: "length recs = length response"
    and each: "\<forall>k<length response. shape_row ev df fs calc (response ! k) = Inr (recs ! k)"
    by blast
  have "\<forall>rec\<in>set recs. \<forall>entry\<in>set calc. fst (snd entry) \<in> set (dict_keys rec)"
  proof (intro ballI)
    fix rec entry assume rec: "rec \<in> set recs" and entry: "entry \<in> set calc"
    from rec obtain k where k: "k < length recs" "rec = recs ! k"
      by (auto simp: in_set_conv_nth)
    with len each have sh: "shape_row ev df fs calc (response ! k) = Inr rec" by simp
    from k len have "response ! k \<in> set response" by simp
    with R obtain st where
      "fold_err (store_metric df (live_value (response ! k))) fs (campaign_base (response ! k), []) = Inr st"
      by blast
    from shape_row_Inr [OF this] sh
    have "rec = fold (add_calculated_metric ev (snd st)) calc (fst st)" by simp
    with entry show "fst (snd entry) \<in> set (dict_keys rec)"
      by (simp add: fold_calc_keys)
  qed
  with recs len show "\<exists>recs. map_err (shape_row ev df fs calc) response = Inr recs
             \<and> length recs = length response
             \<and> (\<forall>rec\<in>set recs. \<forall>entry\<in>set calc. fst (snd entry) \<in> set (dict_keys rec))"
    by blast
qed


theorem formula_faults_absorbed_witness:
  "calc_result quotient_eval (PStr ''cost_per_click'') (PStr ''cost_micros / clicks'')
      [(PStr ''impressions'', PInt 1200), (PStr ''clicks'', PInt 0),
       (PStr ''cost_micros'', PFloat 5), (PStr ''conversions'', PFloat 10)] = Inl ZeroDivisionError
   \<and> (\<exists>recs. map_err (shape_row quotient_eval sample_config
                  [PStr ''impressions'', PStr ''clicks'', PStr ''cost_micros'', PStr ''conversions'']
                  [(PStr ''conversion_rate'', PStr ''CVR'', PStr ''conversions / clicks''),
                   (PStr ''cost_per_click'', PStr ''CPC'', PStr ''cost_micros / clicks'')])
                [sample_row, sample_row] = Inr recs
          \<and> length recs = 2
          \<and> dict_get (recs ! 0) (PStr ''CVR'') = Some (PInt 0)
          \<and> dict_get (recs ! 0) (PStr ''CPC'') = Some PNone
          \<and> dict_get (recs ! 1) (PStr ''Cost'') = Some (PFloat 5))"
proof -
  let ?fs = "[PStr ''impressions'', PStr ''clicks'', PStr ''cost_micros'', PStr ''conversions'']"
  let ?calc = "[(PStr ''conversion_rate'', PStr ''CVR'', PStr ''conversions / clicks''),
                (PStr ''cost_per_click'', PStr ''CPC'', PStr ''cost_micros / clicks'')]"
  have R: "\<forall>row\<in>set [sample_row, sample_row].
             \<exists>st. fold_err (store_metric sample_config (live_value row)) ?fs (campaign_base row, []) = Inr st"
    using sample_requested by simp
  have Z: "calc_result quotient_eval (PStr ''cost_per_click'') (PStr ''cost_micros / clicks'')
      [(PStr ''impressions'', PInt 1200), (PStr ''clicks'', PInt 0),
       (PStr ''cost_micros'', PFloat 5), (PStr ''conversions'', PFloat 10)] = Inl ZeroDivisionError"
    by (simp add: calc_result_def dict_get_def quotient_eval_def split_quotient_def py_truediv_def
        is_number_def)
  from formula_faults_absorbed [OF R, where ev = quotient_eval and calc = ?calc]
  obtain recs where recs: "map_err (shape_row quotient_eval sample_config ?fs ?calc)
                [sample_row, sample_row] = Inr recs" and len: "length recs = length [sample_row, sample_row]"
    by blast
  from recs have "recs = [campaign_base sample_row @
            [(PStr ''Impressions'', PInt 1200), (PStr ''Clicks'', PInt 0),
             (PStr ''Cost'', PFloat 5), (PStr ''Conversions'', PFloat 10),
             (PStr ''CVR'', PInt 0), (PStr ''CPC'', PNone)],
           campaign_base sample_row @
            [(PStr ''Impressions'', PInt 1200), (PStr ''Clicks'', PInt 0),
             (PStr ''Cost'', PFloat 5), (PStr ''Conversions'', PFloat 10),
             (PStr ''CVR'', PInt 0), (PStr ''CPC'', PNone)]]"
    by (simp add: sample_shaped and_then_def)
  then have "dict_get (recs ! 0) (PStr ''CVR'') = Some (PInt 0)
          \<and> dict_get (recs ! 0) (PStr ''CPC'') = Some PNone
          \<and> dict_get (recs ! 1) (PStr ''Cost'') = Some (PFloat 5)"
    by (simp add: dict_get_def campaign_base_def key_campaign_id_def key_campaign_name_def
        key_status_def key_campaign_type_def)
  with Z recs len show ?thesis by simp
qed


subsection \<open>Cost in micros\<close>

text \<open>
  C9. In a record shaped in live mode, a requested metric that the row carries and whose
  display name is written by no other requested or derived metric holds, under its display
  name, the raw value divided by 1000000 when the metric is \<open>cost_micros\<close>, and the raw
  value itself otherwise. A raw cost of 5000000 micros becomes 5.0.
\<close>

theorem cost_micros_converted:
  assumes S: "shape_row ev df fs calc row = Inr rec"
    and F: "PStr m \<in> set fs"
    and V: "metrics row m = Some value"
    and D: "metric_display_name df (PStr m) = Inr nm"
    and U: "\<forall>m'\<in>set fs. metric_display_name df m' = Inr nm \<longrightarrow> m' = PStr m"
    and K: "\<forall>entry\<in>set calc. fst (snd entry) \<noteq> nm"
  shows "dict_get rec nm =
           Some (if m = ''cost_micros''
                 then (case num_of value of Some x \<Rightarrow> PFloat (x / 1000000) | None \<Rightarrow> PNaN)
                 else value)"
proof -
  from S obtain st where st: "fold_err (store_metric df (live_value row)) fs (campaign_base row, []) = Inr st"
    and rec: "rec = fold (add_calculated_metric ev (snd st)) calc (fst st)"
    by (auto simp: shape_row_def and_then_Inr_iff)
  from rec K have r: "dict_get rec nm = dict_get (fst st) nm"
    by (simp add: fold_calc_lookup)
  show ?thesis
  proof (cases "m = ''cost_micros''")
    case False
    with V have "live_value row (PStr m) = Inr (Some value)"
      by (simp add: live_value_def)
    from fold_store_lookup [OF st D this U] F r False show ?thesis by simp
  next
    case True
    have "\<exists>v. live_value row (PStr m) = Inr (Some v)"
    proof (rule ccontr)
      assume n: "\<not> (\<exists>v. live_value row (PStr m) = Inr (Some v))"
      with V True obtain e where e: "live_value row (PStr m) = Inl e"
        by (cases "py_truediv value (PInt 1000000)") (auto simp: live_value_def and_then_def)
      have "\<And>s. fold_err (store_metric df (live_value row)) fs s \<noteq> Inr st"
        using F
      proof (induction fs)
        case Nil
        then show ?case by simp
      next
        case (Cons x xs)
        show ?case
        proof (cases "x = PStr m")
          case True
          with e D show ?thesis by (simp add: store_metric_def and_then_def)
        next
          case False
          with Cons show ?thesis by (auto simp: and_then_Inr_iff)
        qed
      qed
      with st show False by blast
    qed
    then obtain v where v: "live_value row (PStr m) = Inr (Some v)" by blast
    with V True have "py_truediv value (PInt 1000000) = Inr v"
      by (cases "py_truediv value (PInt 1000000)") (auto simp: live_value_def and_then_def)
    then have "v = (case num_of value of Some x \<Rightarrow> PFloat (x / 1000000) | None \<Rightarrow> PNaN)"
      by (auto simp: py_truediv_def split: if_splits option.splits)
    with fold_store_lookup [OF st D v U] F r True show ?thesis by simp
  qed
qed


theorem cost_micros_converted_witness:
  "metrics sample_row ''cost_micros'' = Some (PInt 5000000)
   \<and> metrics sample_row ''impressions'' = Some (PInt 1200)
   \<and> (\<exists>rec. shape_row quotient_eval sample_config
                 [PStr ''impressions'', PStr ''clicks'', PStr ''cost_micros'', PStr ''conversions'']
                 [(PStr ''conversion_rate'', PStr ''CVR'', PStr ''conversions / clicks''),
                  (PStr ''cost_per_click'', PStr ''CPC'', PStr ''cost_micros / clicks'')] sample_row
               = Inr rec
          \<and> dict_get rec (PStr ''Cost'') = Some (PFloat 5)
          \<and> dict_get rec (PStr ''Impressions'') = Some (PInt 1200))"
proof -
  let ?fs = "[PStr ''impressions'', PStr ''clicks'', PStr ''cost_micros'', PStr ''conversions'']"
  let ?calc = "[(PStr ''conversion_rate'', PStr ''CVR'', PStr ''conversions / clicks''),
                (PStr ''cost_per_click'', PStr ''CPC'', PStr ''cost_micros / clicks'')]"
  have F: "PStr ''cost_micros'' \<in> set ?fs" "PStr ''impressions'' \<in> set ?fs" by simp_all
  have V: "metrics sample_row ''cost_micros'' = Some (PInt 5000000)"
    "metrics sample_row ''impressions'' = Some (PInt 1200)"
    by (simp_all add: sample_row_def)
  have D: "metric_display_name sample_config (PStr ''cost_micros'') = Inr (PStr ''Cost'')"
    "metric_display_name sample_config (PStr ''impressions'') = Inr (PStr ''Impressions'')"
    by (simp_all add: metric_display_name_def sample_config_def cell_at_def series_eq_PStr)
  have U: "\<forall>m'\<in>set ?fs. metric_display_name sample_config m' = Inr (PStr ''Cost'') \<longrightarrow> m' = PStr ''cost_micros''"
    "\<forall>m'\<in>set ?fs. metric_display_name sample_config m' = Inr (PStr ''Impressions'') \<longrightarrow> m' = PStr ''impressions''"
    by (simp_all add: metric_display_name_def sample_config_def cell_at_def series_eq_PStr)
  have K: "\<forall>entry\<in>set ?calc. fst (snd entry) \<noteq> PStr ''Cost''"
    "\<forall>entry\<in>set ?calc. fst (snd entry) \<noteq> PStr ''Impressions''"
    by simp_all
  from cost_micros_converted [OF sample_shaped F(1) V(1) D(1) U(1) K(1)]
  have c: "dict_get (campaign_base sample_row @
            [(PStr ''Impressions'', PInt 1200), (PStr ''Clicks'', PInt 0),
             (PStr ''Cost'', PFloat 5), (PStr ''Conversions'', PFloat 10),
             (PStr ''CVR'', PInt 0), (PStr ''CPC'', PNone)]) (PStr ''Cost'') = Some (PFloat 5)"
    by simp
  from cost_micros_converted [OF sample_shaped F(2) V(2) D(2) U(2) K(2)]
  have i: "dict_get (campaign_base sample_row @
            [(PStr ''Impressions'', PInt 1200), (PStr ''Clicks'', PInt 0),
             (PStr ''Cost'', PFloat 5), (PStr ''Conversions'', PFloat 10),
             (PStr ''CVR'', PInt 0), (PStr ''CPC'', PNone)]) (PStr ''Impressions'') = Some (PInt 1200)"
    by simp
  from sample_shaped c i V show ?thesis by simp
qed


subsection \<open>The dummy generator\<close>

text \<open>
  C8 (as amended). For a configuration that has the \<open>metrics\<close> and \<open>name\<close> columns,
  and for every evaluator, the dummy generator returns exactly 10 records; it reads nothing
  but the configuration. When impressions are requested and their display name is written
  by no other metric, record number \<open>i\<close> holds \<open>i * 1000 + i * 100\<close> under that name,
  which is 3300 for the third record.
\<close>

theorem dummy_generator_ten_records:
  assumes M: "index_of ''metrics'' (columns df) = Some m"
    and N: "index_of ''name'' (columns df) = Some n"
  shows "\<exists>recs. get_dummy_campaign_metrics ev df = Inr recs
           \<and> length recs = 10
           \<and> (\<forall>i fs calc nm.
                 1 \<le> i \<and> i \<le> 10
                 \<and> get_active_metrics_list df = Inr fs \<and> get_calculated_metrics df = Inr calc
                 \<and> PStr ''impressions'' \<in> set fs
                 \<and> metric_display_name df (PStr ''impressions'') = Inr nm
                 \<and> (\<forall>m'\<in>set fs. metric_display_name df m' = Inr nm \<longrightarrow> m' = PStr ''impressions'')
                 \<and> (\<forall>entry\<in>set calc. fst (snd entry) \<noteq> nm)
                 \<longrightarrow> dict_get (recs ! nat (i - 1)) nm = Some (PInt (i * 1000 + i * 100)))"
proof -
  from config_views_total [OF M N] obtain fs calc where
    fs: "get_active_metrics_list df = Inr fs" and calc: "get_calculated_metrics df = Inr calc"
    by blast
  have "\<forall>i\<in>set [1..num_campaigns]. \<exists>rec. dummy_campaign ev df fs calc i = Inr rec"
    using dummy_campaign_total [OF M N] by blast
  from map_err_total [OF this] obtain recs where
    recs: "map_err (dummy_campaign ev df fs calc) [1..num_campaigns] = Inr recs"
    and len: "length recs = length [1..num_campaigns]"
    and each: "\<forall>k<length [1..num_campaigns].
                 dummy_campaign ev df fs calc ([1..num_campaigns] ! k) = Inr (recs ! k)"
    by blast
  from fs calc recs have g: "get_dummy_campaign_metrics ev df = Inr recs"
    by (simp add: get_dummy_campaign_metrics_def and_then_def)
  from len have l: "length recs = 10" by (simp add: num_campaigns_def)
  have "\<forall>i fs' calc' nm.
                 1 \<le> i \<and> i \<le> 10
                 \<and> get_active_metrics_list df = Inr fs' \<and> get_calculated_metrics df = Inr calc'
                 \<and> PStr ''impressions'' \<in> set fs'
                 \<and> metric_display_name df (PStr ''impressions'') = Inr nm
                 \<and> (\<forall>m'\<in>set fs'. metric_display_name df m' = Inr nm \<longrightarrow> m' = PStr ''impressions'')
                 \<and> (\<forall>entry\<in>set calc'. fst (snd entry) \<noteq> nm)
                 \<longrightarrow> dict_get (recs ! nat (i - 1)) nm = Some (PInt (i * 1000 + i * 100))"
  proof (intro allI impI, elim conjE)
    fix i :: int and fs' calc' nm
    assume i: "1 \<le> i" "i \<le> 10"
      and "get_active_metrics_list df = Inr fs'" "get_calculated_metrics df = Inr calc'"
      and imp: "PStr ''impressions'' \<in> set fs'"
      and D: "metric_display_name df (PStr ''impressions'') = Inr nm"
      and U: "\<forall>m'\<in>set fs'. metric_display_name df m' = Inr nm \<longrightarrow> m' = PStr ''impressions''"
      and K: "\<forall>entry\<in>set calc'. fst (snd entry) \<noteq> nm"
    with fs calc have eq: "fs' = fs" "calc' = calc" by simp_all
    from i have k: "nat (i - 1) < length [1..num_campaigns]" by (simp add: num_campaigns_def)
    from i have nth: "[1..num_campaigns] ! nat (i - 1) = i"
      by (simp add: num_campaigns_def nth_upto)
    from each k nth have d: "dummy_campaign ev df fs calc i = Inr (recs ! nat (i - 1))" by fastforce
    then obtain st where st: "fold_err (store_metric df (\<lambda>metric. Inr (Some (dummy_value i metric))))
                 fs (dummy_base i, []) = Inr st"
      and rec: "recs ! nat (i - 1) = fold (add_calculated_metric ev (snd st)) calc (fst st)"
      by (auto simp: dummy_campaign_def and_then_Inr_iff)
    have v: "(\<lambda>metric. Inr (Some (dummy_value i metric)) :: pyerr + pyval option) (PStr ''impressions'')
               = Inr (Some (PInt (i * 1000 + i * 100)))"
      by (simp add: dummy_value_def)
    from fold_store_lookup [OF st D v] U imp eq
    have "dict_get (fst st) nm = Some (PInt (i * 1000 + i * 100))" by simp
    with rec K eq show "dict_get (recs ! nat (i - 1)) nm = Some (PInt (i * 1000 + i * 100))"
      by (simp add: fold_calc_lookup)
  qed
  with g l show ?thesis by blast
qed

theorem dummy_generator_ten_records_witness:
  "index_of ''metrics'' (columns sample_config) = Some 0
   \<and> index_of ''name'' (columns sample_config) = Some 1
   \<and> (\<exists>recs. get_dummy_campaign_metrics quotient_eval sample_config = Inr recs
          \<and> length recs = 10
          \<and> dict_get (recs ! 2) (PStr ''Impressions'') = Some (PInt 3300))"
proof -
  let ?fs = "[PStr ''impressions'', PStr ''clicks'', PStr ''cost_micros'', PStr ''conversions'']"
  let ?calc = "[(PStr ''conversion_rate'', PStr ''CVR'', PStr ''conversions / clicks''),
                (PStr ''cost_per_click'', PStr ''CPC'', PStr ''cost_micros / clicks'')]"
  have M: "index_of ''metrics'' (columns sample_config) = Some 0"
    by (simp add: sample_config_def)
  have N: "index_of ''name'' (columns sample_config) = Some 1"
    by (simp add: sample_config_def)
  have D: "metric_display_name sample_config (PStr ''impressions'') = Inr (PStr ''Impressions'')"
    by (simp add: metric_display_name_def sample_config_def cell_at_def series_eq_PStr)
  have U: "\<forall>m'\<in>set ?fs. metric_display_name sample_config m' = Inr (PStr ''Impressions'')
             \<longrightarrow> m' = PStr ''impressions''"
    by (simp add: metric_display_name_def sample_config_def cell_at_def series_eq_PStr)
  have K: "\<forall>entry\<in>set ?calc. fst (snd entry) \<noteq> PStr ''Impressions''"
    by simp
  from dummy_generator_ten_records [OF M N, of quotient_eval]
  obtain recs where g: "get_dummy_campaign_metrics quotient_eval sample_config = Inr recs"
    and l: "length recs = 10"
    and r: "\<And>i fs calc nm.
                 1 \<le> i \<and> i \<le> 10
                 \<and> get_active_metrics_list sample_config = Inr fs
                 \<and> get_calculated_metrics sample_config = Inr calc
                 \<and> PStr ''impressions'' \<in> set fs
                 \<and> metric_display_name sample_config (PStr ''impressions'') = Inr nm
                 \<and> (\<forall>m'\<in>set fs. metric_display_name sample_config m' = Inr nm
                        \<longrightarrow> m' = PStr ''impressions'')
                 \<and> (\<forall>entry\<in>set calc. fst (snd entry) \<noteq> nm)
                 \<Longrightarrow> dict_get (recs ! nat (i - 1)) nm = Some (PInt (i * 1000 + i * 100))"
    by blast
  have "dict_get (recs ! nat (3 - 1)) (PStr ''Impressions'') = Some (PInt (3 * 1000 + 3 * 100))"
    by (rule r [of 3 ?fs ?calc]) (use sample_list sample_calc D U K in simp)
  then have "dict_get (recs ! 2) (PStr ''Impressions'') = Some (PInt 3300)"
    by (simp add: numeral_2_eq_2)
  with M N g l show ?thesis by blast
qed

text \<open>
  C8 as stated fails in its example: the rule gives 3300 for the third campaign, not 3900.
\<close>

theorem dummy_impressions_counterexample:
  "dummy_value 3 (PStr ''impressions'') = PInt 3300
   \<and> dummy_value 3 (PStr ''impressions'') \<noteq> PInt 3900
   \<and> (\<exists>recs. get_dummy_campaign_metrics quotient_eval sample_config = Inr recs
          \<and> dict_get (recs ! 2) (PStr ''Impressions'') = Some (PInt 3300)
          \<and> dict_get (recs ! 2) (PStr ''Impressions'') \<noteq> Some (PInt 3900))"
proof -
  have "map_err (dummy_campaign quotient_eval sample_config
                   [PStr ''impressions'', PStr ''clicks'', PStr ''cost_micros'', PStr ''conversions'']
                   [(PStr ''conversion_rate'', PStr ''CVR'', PStr ''conversions / clicks''),
                    (PStr ''cost_per_click'', PStr ''CPC'', PStr ''cost_micros / clicks'')])
          [1, 2, 3, 4, 5, 6, 7, 8, 9, 10]
        = Inr (map (\<lambda>i. dummy_base i @
                      [(PStr ''Impressions'', PInt (i * 1100)), (PStr ''Clicks'', PInt (i * 60)),
                       (PStr ''Cost'', PFloat (of_int i * 11 / 2000)),
                       (PStr ''Conversions'', PFloat (of_int i * 5 / 2)),
                       (PStr ''CVR'', PFloat (1 / 24)),
                       (PStr ''CPC'', PFloat (11 / 120000))])
                 [1, 2, 3, 4, 5, 6, 7, 8, 9, 10])"
    by (simp add: dummy_campaign_def store_metric_def metric_display_name_def dummy_value_def
        sample_config_def cell_at_def series_eq_PStr and_then_def py_truediv_def
        is_number_def add_calculated_metric_def calc_result_def dict_get_def py_gt0_def
        quotient_eval_def split_quotient_def dummy_base_def
        key_campaign_id_def key_campaign_name_def key_status_def key_campaign_type_def)
  moreover have "[1..num_campaigns] = [1, 2, 3, 4, 5, 6, 7, 8, 9, 10]"
    by (simp add: num_campaigns_def upto_rec1)
  ultimately have "get_dummy_campaign_metrics quotient_eval sample_config
        = Inr (map (\<lambda>i. dummy_base i @
                      [(PStr ''Impressions'', PInt (i * 1100)), (PStr ''Clicks'', PInt (i * 60)),
                       (PStr ''Cost'', PFloat (of_int i * 11 / 2000)),
                       (PStr ''Conversions'', PFloat (of_int i * 5 / 2)),
                       (PStr ''CVR'', PFloat (1 / 24)),
                       (PStr ''CPC'', PFloat (11 / 120000))])
                 [1, 2, 3, 4, 5, 6, 7, 8, 9, 10])"
    by (simp add: get_dummy_campaign_metrics_def sample_list sample_calc and_then_def)
  moreover have "dummy_value 3 (PStr ''impressions'') = PInt 3300"
    by (simp add: dummy_value_def)
  ultimately show ?thesis
    by (simp add: dict_get_def dummy_base_def key_campaign_id_def key_campaign_name_def
        key_status_def key_campaign_type_def)
qed

subsection \<open>Merging new records into the persisted table\<close>





lemma index_of_append: "x \<in> set xs \<Longrightarrow> index_of x (xs @ ys) = index_of x xs"
  by (induction xs) auto












subsection \<open>Persisting when there is nothing to merge\<close>

text \<open>
  C5. When reading the data sheet fails, with a fault of the sheet service or of the
  conversion to a table, or yields an empty table, every table handed to \<open>write_range\<close>
  is the header of the batch followed by its \<open>N\<close> rows, there is at least one such write,
  and the outcome of persisting is the outcome of that write: the fault of the read is not
  passed on.
\<close>

theorem persist_fresh_write:
  assumes "(\<exists>e. and_then rd read_as_dataframe = Inl e)
         \<or> (\<exists>ex. and_then rd read_as_dataframe = Inr ex \<and> frame_empty ex)"
  shows "fst (persist rd write_range df) \<noteq> []
       \<and> (\<forall>p\<in>set (fst (persist rd write_range df)). p = columns df # rows df)
       \<and> snd (persist rd write_range df) = write_range (columns df # rows df)
       \<and> (\<forall>n. write_range (columns df # rows df) = Inr n \<longrightarrow>
             persist rd write_range df = ([columns df # rows df], Inr n))"
  using assms
proof
  assume "\<exists>e. and_then rd read_as_dataframe = Inl e"
  then show ?thesis
    by (auto simp: persist_def Let_def frame_values_def)
next
  assume "\<exists>ex. and_then rd read_as_dataframe = Inr ex \<and> frame_empty ex"
  then show ?thesis
    by (cases "write_range (columns df # rows df)") (auto simp: persist_def Let_def frame_values_def)
qed

theorem persist_fresh_write_witness:
  "and_then (Inl StoreFault) read_as_dataframe = Inl StoreFault
   \<and> persist (Inl StoreFault) count_cells sample_batch =
       ([[[PStr ''Name'', PStr ''Impressions''], [PStr ''Autumn'', PInt 700]]], Inr 4)
   \<and> persist (Inr [[''Name'', ''Impressions'']]) count_cells sample_batch =
       ([[[PStr ''Name'', PStr ''Impressions''], [PStr ''Autumn'', PInt 700]]], Inr 4)"
proof -
  have f: "and_then (Inl StoreFault) read_as_dataframe = Inl StoreFault"
    by (simp add: and_then_def)
  have e: "and_then (Inr [[''Name'', ''Impressions'']]) read_as_dataframe
             = Inr \<lparr>columns = [''Name'', ''Impressions''], rows = []\<rparr>
         \<and> frame_empty \<lparr>columns = [''Name'', ''Impressions''], rows = []\<rparr>"
    by (simp add: and_then_def read_as_dataframe_def frame_empty_def)
  have c: "count_cells (columns sample_batch # rows sample_batch) = Inr 4"
    by (simp add: count_cells_def sample_batch_def)
  from f have "(\<exists>e. and_then (Inl StoreFault) read_as_dataframe = Inl e)
         \<or> (\<exists>ex. and_then (Inl StoreFault) read_as_dataframe = Inr ex \<and> frame_empty ex)"
    by blast
  from persist_fresh_write [OF this, of count_cells sample_batch] c
  have 1: "persist (Inl StoreFault) count_cells sample_batch
             = ([columns sample_batch # rows sample_batch], Inr 4)"
    by blast
  from e have "(\<exists>e. and_then (Inr [[''Name'', ''Impressions'']]) read_as_dataframe = Inl e)
         \<or> (\<exists>ex. and_then (Inr [[''Name'', ''Impressions'']]) read_as_dataframe = Inr ex \<and> frame_empty ex)"
    by blast
  from persist_fresh_write [OF this, of count_cells sample_batch] c
  have 2: "persist (Inr [[''Name'', ''Impressions'']]) count_cells sample_batch
             = ([columns sample_batch # rows sample_batch], Inr 4)"
    by blast
  from f 1 2 show ?thesis by (simp add: sample_batch_def)
qed

end
